theory Spec2Isabelle
  imports Main "HOL-Library.Sublist"
begin

section \<open>The Argo orchestrator of ZenML\<close>

text \<open>
  A shallow embedding of \<^verbatim>\<open>src/zenml/integrations/argo/orchestrators/argo_orchestrator.py\<close>.
  Exceptions are values of the type \<open>error\<close>; a method that can raise returns
  \<open>error + 'a\<close>. Everything the orchestrator touches outside its own fields (the logger,
  the Kubernetes and Argo services, the file system, the process table, the local ports)
  is a field of the record \<open>world\<close>, passed in and returned updated. What the orchestrator
  only reads from its surroundings and from libraries that are not part of the file
  (the platform, the notebook check, the entrypoint configuration, the upstream relation
  of the compiled pipeline, what the backend answers) is a field of the record \<open>env\<close>.
\<close>

subsection \<open>Exceptions and log records\<close>

datatype error =
    RuntimeError string
  | KeyError string
  | AssertionError
  | FileNotFoundError string
  | IndexError
  | CalledProcessError string
  | ExternalError string

text \<open>
  \<open>CalledProcessError s\<close> is a \<^verbatim>\<open>subprocess.CalledProcessError\<close> whose \<^verbatim>\<open>str\<close> is \<open>s\<close>;
  \<open>ExternalError s\<close> is any exception of another class raised inside a library call.
\<close>

datatype log_arg = Str string | Num nat

datatype log_entry = Warning string "log_arg list" | Info string "log_arg list"

text \<open>Python's \<^verbatim>\<open>str\<close> of a non-negative integer, used by the f-strings.\<close>

fun digit_char :: "nat \<Rightarrow> char" where
  "digit_char n = ''0123456789'' ! n"

fun str_nat :: "nat \<Rightarrow> string" where
  "str_nat n = (if n < 10 then [digit_char n] else str_nat (n div 10) @ [digit_char (n mod 10)])"

definition DEFAULT_ARGO_UI_PORT :: nat where
  "DEFAULT_ARGO_UI_PORT = 2746"

subsection \<open>Data\<close>

type_synonym path = "string list"

text \<open>
  A path is the list of its components, so \<^verbatim>\<open>os.path.join\<close> is list append.
  A file is a directory, a PID file recording a process id, or any other regular file.
\<close>

datatype fs_entry = Directory | PidRecord nat | Regular

record resource_configuration =
  cpu_count :: "nat option"
  gpu_count :: "nat option"
  memory :: "string option"

record step =
  name :: string
  resources :: resource_configuration

record base_pipeline =
  pipeline_name :: string
  docker_configuration :: string

text \<open>
  The compiled pipeline (\<^verbatim>\<open>Pb2Pipeline\<close>): its nodes with the ids of their upstream nodes.
  The orchestrator only hands it on to \<^verbatim>\<open>get_entrypoint_arguments\<close> and
  \<^verbatim>\<open>get_upstream_step_names\<close>.
\<close>

type_synonym pb2_pipeline = "(string \<times> string list) list"

record runtime_configuration =
  docker_image :: "string option"
  run_name :: "string option"
  schedule :: "string option"

record component =
  component_name :: string
  flavor :: string
  is_local :: bool

record stack =
  container_registry :: "component option"
  artifact_store :: "component option"

record orchestrator =
  uuid :: string
  kubernetes_context :: string
  kubernetes_namespace :: string
  argo_ui_port :: nat
  skip_ui_daemon_provisioning :: bool

text \<open>The objects of the hera library: a task, the workflow service, the workflow.\<close>

record task =
  task_name :: string
  func :: string
  image :: string
  command :: "string list"
  args :: "string list"

record workflow_service =
  host :: string
  token :: string
  verify_ssl :: bool
  namespace :: string

record workflow =
  workflow_name :: string
  service :: workflow_service
  tasks :: "task list"
  dependencies :: "(task \<times> task) list"

datatype backend_call =
    ReadServiceAccountToken string string
  | CreateWorkflow workflow

record world =
  logged :: "log_entry list"
  backend_calls :: "backend_call list"
  fs :: "path \<rightharpoonup> fs_entry"
  alive :: "nat set"
  occupied :: "nat set"
  daemons :: "(nat \<times> string list) list"

record env =
  in_notebook :: bool
  platform :: string
  global_config_directory :: path
  kube_config :: "(string list \<times> string) option"
  isfile :: "string \<Rightarrow> bool"
  read_token :: "string option \<Rightarrow> string \<Rightarrow> string \<Rightarrow> error + string"
  get_entrypoint_command :: "string list"
  get_entrypoint_arguments :: "step \<Rightarrow> pb2_pipeline \<Rightarrow> string list"
  requires_resources_in_orchestration_environment :: "step \<Rightarrow> bool"
  get_upstream_step_names :: "step \<Rightarrow> pb2_pipeline \<Rightarrow> string list"
  create :: "workflow \<Rightarrow> error option"
  find_available_port :: nat
  new_pid :: nat

text \<open>
  \<open>kube_config\<close> is what \<^verbatim>\<open>k8s_config.list_kube_config_contexts()\<close> finds in the local
  Kubernetes configuration: the context names and the active context's name, or \<open>None\<close>
  where it raises \<^verbatim>\<open>ConfigException\<close>. \<open>read_token\<close> is the part of \<^verbatim>\<open>get_sa_token\<close>
  that talks to the Kubernetes API (load the configuration, read the service account,
  read and decode its secret): the token, or the exception the client raises.
  \<open>create w\<close> is the exception \<^verbatim>\<open>w.create()\<close> raises, if it raises one.
  \<open>find_available_port\<close> is the port \<^verbatim>\<open>networking_utils.find_available_port()\<close> returns,
  \<open>new_pid\<close> the process id of the next daemon.
\<close>

subsection \<open>Dispatch: \<^verbatim>\<open>get_sa_token\<close> and \<^verbatim>\<open>prepare_or_run_pipeline\<close>\<close>

definition get_sa_token ::
  "env \<Rightarrow> string \<Rightarrow> string \<Rightarrow> string option \<Rightarrow> world \<Rightarrow> world \<times> (error + string)" where
  "get_sa_token e service_account ns config_file w =
     (case config_file of
        Some f \<Rightarrow>
          if \<not> isfile e f then (w, Inl (FileNotFoundError f))
          else (w\<lparr>backend_calls := backend_calls w @ [ReadServiceAccountToken service_account ns]\<rparr>,
                read_token e config_file service_account ns)
      | None \<Rightarrow>
          (w\<lparr>backend_calls := backend_calls w @ [ReadServiceAccountToken service_account ns]\<rparr>,
           read_token e config_file service_account ns))"

definition notebook_message :: string where
  "notebook_message =
     ''The Argo orchestrator cannot run pipelines in a notebook '' @
     ''environment. The reason is that it is non-trivial to create '' @
     ''a Docker image of a notebook. Please consider refactoring '' @
     ''your notebook cells into separate scripts in a Python module '' @
     ''and run the code outside of a notebook when using this '' @
     ''orchestrator.''"

definition resources_warning :: "step \<Rightarrow> log_entry" where
  "resources_warning s =
     Warning (''Specifying step resources is not yet supported for '' @
              ''the Airflow orchestrator, ignoring resource '' @
              ''configuration for step %s.'') [Str (name s)]"

definition schedule_warning :: log_entry where
  "schedule_warning =
     Warning (''The Argo Orchestrator currently does not support the '' @
              ''use of schedules. The `schedule` will be ignored '' @
              ''and the pipeline will be run immediately.'') []"

definition running_info :: "orchestrator \<Rightarrow> log_entry" where
  "running_info self =
     Info (''Running Argo pipeline in kubernetes context '' @ [CHR 0x27] @ ''%s'' @ [CHR 0x27] @
           '' and namespace '' @ [CHR 0x27] @ ''%s'' @ [CHR 0x27] @ ''.'')
          [Str (kubernetes_context self), Str (kubernetes_namespace self)]"

definition upload_failure_message :: "orchestrator \<Rightarrow> string \<Rightarrow> string" where
  "upload_failure_message self e =
     ''Failed to upload Argo pipeline: '' @ e @ ''. '' @
     ''Please make sure your kubernetes config is present and the '' @
     kubernetes_context self @ '' kubernetes context is configured '' @
     ''correctly.''"

text \<open>
  The inner loop: \<^verbatim>\<open>step_name_to_argo_task[upstream_step_name] >> current_task\<close> for each
  upstream name. A name that is not a key of the dictionary raises \<^verbatim>\<open>KeyError\<close>; the
  edges wired before it stay in the workflow object.
\<close>

fun wire_upstream ::
  "(string \<rightharpoonup> task) \<Rightarrow> task \<Rightarrow> string list \<Rightarrow> workflow \<Rightarrow> error + workflow" where
  "wire_upstream step_name_to_argo_task current_task [] w = Inr w"
| "wire_upstream step_name_to_argo_task current_task (upstream_step_name # rest) w =
     (case step_name_to_argo_task upstream_step_name of
        None \<Rightarrow> Inl (KeyError upstream_step_name)
      | Some t \<Rightarrow>
          wire_upstream step_name_to_argo_task current_task rest
            (w\<lparr>dependencies := dependencies w @ [(t, current_task)]\<rparr>))"

text \<open>
  The loop over \<^verbatim>\<open>sorted_steps\<close>, inside the \<^verbatim>\<open>with Workflow(...) as w\<close> block. Its state is
  the dictionary, the workflow object and the log. A task joins the workflow of the
  enclosing block when it is constructed.
\<close>

fun add_steps ::
  "env \<Rightarrow> string \<Rightarrow> pb2_pipeline \<Rightarrow> step list \<Rightarrow> (string \<rightharpoonup> task) \<Rightarrow> workflow \<Rightarrow>
   log_entry list \<Rightarrow> log_entry list \<times> (error + workflow)" where
  "add_steps e image_name pb2 [] step_name_to_argo_task w lg = (lg, Inr w)"
| "add_steps e image_name pb2 (s # sorted_steps) step_name_to_argo_task w lg =
     (let current_task =
            \<lparr>task_name = name s, func = ''dummy'', image = image_name,
             command = get_entrypoint_command e,
             args = get_entrypoint_arguments e s pb2\<rparr>;
          w1 = w\<lparr>tasks := tasks w @ [current_task]\<rparr>;
          lg1 = (if requires_resources_in_orchestration_environment e s
                 then lg @ [resources_warning s] else lg);
          d1 = step_name_to_argo_task(name s \<mapsto> current_task)
      in case wire_upstream d1 current_task (get_upstream_step_names e s pb2) w1 of
           Inl err \<Rightarrow> (lg1, Inl err)
         | Inr w2 \<Rightarrow> add_steps e image_name pb2 sorted_steps d1 w2 lg1)"

text \<open>
  \<open>truthy\<close> is Python's truth value of \<^verbatim>\<open>runtime_configuration.run_name\<close> in the
  \<^verbatim>\<open>assert\<close>: \<^verbatim>\<open>None\<close> and the empty string fail it. \<open>new_workflow\<close> is the workflow object
  the \<^verbatim>\<open>with\<close> statement constructs, \<open>submit\<close> the \<^verbatim>\<open>try\<close> statement that ends the method:
  \<^verbatim>\<open>w.create()\<close>, with \<^verbatim>\<open>CalledProcessError\<close> turned into a \<^verbatim>\<open>RuntimeError\<close> and every other
  exception left as it is.
\<close>

definition truthy :: "string option \<Rightarrow> bool" where
  "truthy v = (case v of None \<Rightarrow> False | Some s \<Rightarrow> s \<noteq> [])"

definition new_workflow :: "orchestrator \<Rightarrow> base_pipeline \<Rightarrow> string \<Rightarrow> workflow" where
  "new_workflow self pipeline tok =
     \<lparr>workflow_name = pipeline_name pipeline,
      service = \<lparr>host = ''https://127.0.0.1:'' @ str_nat (argo_ui_port self),
                 token = tok, verify_ssl = False,
                 namespace = kubernetes_namespace self\<rparr>,
      tasks = [], dependencies = []\<rparr>"

definition submit :: "orchestrator \<Rightarrow> env \<Rightarrow> workflow \<Rightarrow> world \<Rightarrow> world \<times> (error + unit)" where
  "submit self e w wd =
     (let wd1 = wd\<lparr>backend_calls := backend_calls wd @ [CreateWorkflow w]\<rparr>
      in case create e w of
           None \<Rightarrow> (wd1, Inr ())
         | Some (CalledProcessError m) \<Rightarrow>
             (wd1, Inl (RuntimeError (upload_failure_message self m)))
         | Some other \<Rightarrow> (wd1, Inl other))"

definition prepare_or_run_pipeline ::
  "orchestrator \<Rightarrow> env \<Rightarrow> step list \<Rightarrow> base_pipeline \<Rightarrow> pb2_pipeline \<Rightarrow> stack \<Rightarrow>
   runtime_configuration \<Rightarrow> world \<Rightarrow> world \<times> (error + unit)" where
  "prepare_or_run_pipeline self e sorted_steps pipeline pb2 stk rc wd =
     (if in_notebook e then (wd, Inl (RuntimeError notebook_message))
      else case docker_image rc of
        None \<Rightarrow> (wd, Inl (KeyError ''docker_image''))
      | Some image_name \<Rightarrow>
          if \<not> truthy (run_name rc) then (wd, Inl AssertionError)
          else case get_sa_token e ''default'' (kubernetes_namespace self) None wd of
            (wd1, Inl err) \<Rightarrow> (wd1, Inl err)
          | (wd1, Inr tok) \<Rightarrow>
              (case add_steps e image_name pb2 sorted_steps Map.empty
                      (new_workflow self pipeline tok) (logged wd1) of
                 (lg, Inl err) \<Rightarrow> (wd1\<lparr>logged := lg\<rparr>, Inl err)
               | (lg, Inr w) \<Rightarrow>
                   submit self e w
                     (wd1\<lparr>logged :=
                        (if schedule rc \<noteq> None then lg @ [schedule_warning] else lg)
                        @ [running_info self]\<rparr>)))"

subsection \<open>Stack validation: \<^verbatim>\<open>get_kubernetes_contexts\<close> and the \<^verbatim>\<open>validator\<close> property\<close>

definition get_kubernetes_contexts :: "env \<Rightarrow> string list \<times> string option" where
  "get_kubernetes_contexts e =
     (case kube_config e of
        None \<Rightarrow> ([], None)
      | Some (context_names, active_context_name) \<Rightarrow> (context_names, Some active_context_name))"

definition context_not_found_message :: "orchestrator \<Rightarrow> string" where
  "context_not_found_message self =
     ''Could not find a Kubernetes context named '' @
     [CHR 0x27] @ kubernetes_context self @ [CHR 0x27] @ '' in the local Kubernetes '' @
     ''configuration. Please make sure that the Kubernetes '' @
     ''cluster is running and that the kubeconfig file is '' @
     ''configured correctly. To list all configured '' @
     ''contexts, run:'' @ [CHR 0x0A, CHR 0x0A] @
     ''  `kubectl config get-contexts`'' @ [CHR 0x0A]"

text \<open>
  The nested function \<^verbatim>\<open>_validate\<close> of the \<^verbatim>\<open>validator\<close> property. The two checks on
  local stack components are comments in the source, so they are no part of the function.
\<close>

definition argo_validate :: "orchestrator \<Rightarrow> env \<Rightarrow> stack \<Rightarrow> error + (bool \<times> string)" where
  "argo_validate self e stk =
     (case container_registry stk of
        None \<Rightarrow> Inl AssertionError
      | Some registry \<Rightarrow>
          (let contexts = fst (get_kubernetes_contexts e)
           in if kubernetes_context self \<notin> set contexts
              then Inr (False, context_not_found_message self)
              else Inr (True, [])))"

datatype stack_component_type = CONTAINER_REGISTRY | ARTIFACT_STORE

definition type_value :: "stack_component_type \<Rightarrow> string" where
  "type_value t = (case t of CONTAINER_REGISTRY \<Rightarrow> ''container_registry''
                           | ARTIFACT_STORE \<Rightarrow> ''artifact_store'')"

definition component_of :: "stack \<Rightarrow> stack_component_type \<Rightarrow> component option" where
  "component_of stk t = (case t of CONTAINER_REGISTRY \<Rightarrow> container_registry stk
                                 | ARTIFACT_STORE \<Rightarrow> artifact_store stk)"

record stack_validator =
  required_components :: "stack_component_type list"
  custom_validation_function :: "(stack \<Rightarrow> error + (bool \<times> string)) option"

definition validator :: "orchestrator \<Rightarrow> env \<Rightarrow> stack_validator" where
  "validator self e =
     \<lparr>required_components = [CONTAINER_REGISTRY],
      custom_validation_function = Some (argo_validate self e)\<rparr>"

text \<open>
  Modelled from the spec: \<^verbatim>\<open>StackValidator.validate\<close> (\<^verbatim>\<open>zenml.stack\<close>) is not among the
  sources. By the specification it first checks that every required component type is
  present and, if not, returns failure naming the missing type; then, if a custom
  predicate is supplied, it returns that predicate's verdict and message verbatim; a
  stack that passes with no custom predicate is accepted.
\<close>

definition validate :: "stack_validator \<Rightarrow> stack \<Rightarrow> error + (bool \<times> string)" where
  "validate v stk =
     (case filter (\<lambda>t. component_of stk t = None) (required_components v) of
        t # _ \<Rightarrow> Inr (False, type_value t)
      | [] \<Rightarrow> (case custom_validation_function v of
                 None \<Rightarrow> Inr (True, [])
               | Some f \<Rightarrow> f stk))"

subsection \<open>Files, processes and ports\<close>




text \<open>
  Modelled from the spec: \<^verbatim>\<open>zenml.utils.networking_utils\<close> is not among the sources.
  A port is available when no process has bound it.
\<close>

definition port_available :: "world \<Rightarrow> nat \<Rightarrow> bool" where
  "port_available wd port = (port \<notin> occupied wd)"

text \<open>
  Modelled from the spec: \<^verbatim>\<open>zenml.utils.daemon\<close> is not among the sources. By the
  specification \<^verbatim>\<open>check_if_daemon_is_running\<close> is true iff the recorded process id both
  exists in the file and is alive in the process table; \<^verbatim>\<open>stop_daemon\<close> sends a
  termination signal to the recorded process and removes the PID file;
  \<^verbatim>\<open>run_as_daemon\<close> detaches the callable into a background process, records its process
  id at the PID file and redirects its output to the log file. The callable of the
  orchestrator runs one command, kept with the process id in \<open>daemons\<close>.
\<close>

definition check_if_daemon_is_running :: "world \<Rightarrow> path \<Rightarrow> bool" where
  "check_if_daemon_is_running wd pid_file =
     (case fs wd pid_file of Some (PidRecord p) \<Rightarrow> p \<in> alive wd | _ \<Rightarrow> False)"


definition run_as_daemon :: "env \<Rightarrow> string list \<Rightarrow> path \<Rightarrow> path \<Rightarrow> world \<Rightarrow> world" where
  "run_as_daemon e cmd pid_file lf wd =
     wd\<lparr>fs := (fs wd)(pid_file \<mapsto> PidRecord (new_pid e), lf \<mapsto> Regular),
        alive := insert (new_pid e) (alive wd),
        daemons := daemons wd @ [(new_pid e, cmd)]\<rparr>"

subsection \<open>Lifecycle of the orchestrator\<close>

definition root_directory :: "orchestrator \<Rightarrow> env \<Rightarrow> path" where
  "root_directory self e = global_config_directory e @ [''argo'', uuid self]"

definition pipeline_directory :: "orchestrator \<Rightarrow> env \<Rightarrow> path" where
  "pipeline_directory self e = root_directory self e @ [''pipelines'']"

definition pid_file_path :: "orchestrator \<Rightarrow> env \<Rightarrow> path" where
  "pid_file_path self e = root_directory self e @ [''argo_daemon.pid'']"

definition log_file :: "orchestrator \<Rightarrow> env \<Rightarrow> path" where
  "log_file self e = root_directory self e @ [''argo_daemon.log'']"


definition is_running :: "orchestrator \<Rightarrow> env \<Rightarrow> world \<Rightarrow> bool" where
  "is_running self e wd =
     (if skip_ui_daemon_provisioning self then True
      else if platform e \<noteq> ''win32''
           then check_if_daemon_is_running wd (pid_file_path self e)
           else True)"





fun join :: "string \<Rightarrow> string list \<Rightarrow> string" where
  "join sep [] = []"
| "join sep [x] = x"
| "join sep (x # y # ys) = x @ sep @ join sep (y # ys)"

definition port_forward_command :: "orchestrator \<Rightarrow> nat \<Rightarrow> string list" where
  "port_forward_command self port =
     [''kubectl'', ''--context'', kubernetes_context self,
      ''--namespace'', kubernetes_namespace self,
      ''port-forward'', ''svc/argo-server'', str_nat port @ '':2746'']"

definition occupied_warning :: "nat \<Rightarrow> string list \<Rightarrow> log_entry" where
  "occupied_warning port modified_command =
     Warning (''Unable to port-forward Argo UI to local port %d '' @
              ''because the port is occupied. In order to access the Argo '' @
              ''UI at http://localhost:<PORT>/, please run '' @ [CHR 0x27] @ ''%s'' @ [CHR 0x27] @
              '' in a '' @
              ''separate command line shell (replace <PORT> with a free port '' @
              ''of your choice).'')
             [Num port, Str (join '' '' modified_command)]"

definition windows_warning :: "nat \<Rightarrow> string list \<Rightarrow> log_entry" where
  "windows_warning port cmd =
     Warning (''Daemon functionality not supported on Windows. '' @
              ''In order to access the Argo UI at '' @
              ''http://localhost:%d/, please run '' @ [CHR 0x27] @ ''%s'' @ [CHR 0x27] @
              '' in a separate command '' @
              ''line shell.'')
             [Num port, Str (join '' '' cmd)]"

definition started_info :: "path \<Rightarrow> nat \<Rightarrow> log_entry" where
  "started_info lf port =
     Info (''Started Argo UI daemon (check the daemon logs at %s '' @
           ''in case you'' @ [CHR 0x27] @ ''re not able to view the UI). The Argo '' @
           ''UI should now be accessible at http://localhost:%d/.'')
          [Str (join ''/'' lf), Num port]"

text \<open>
  \<open>chosen_port\<close> is the value of the variable \<^verbatim>\<open>port\<close> after the first \<^verbatim>\<open>if\<close> of
  \<^verbatim>\<open>start_ui_daemon\<close>; \<open>port_forward_command\<close> is the list \<^verbatim>\<open>command\<close>, of which
  \<^verbatim>\<open>modified_command[-1] = "<PORT>:2746"\<close> replaces the last element.
\<close>

definition chosen_port :: "orchestrator \<Rightarrow> env \<Rightarrow> world \<Rightarrow> nat" where
  "chosen_port self e wd =
     (if argo_ui_port self = DEFAULT_ARGO_UI_PORT \<and> \<not> port_available wd (argo_ui_port self)
      then find_available_port e
      else argo_ui_port self)"

text \<open>
  Python's assignment to the last element of a list, \<^verbatim>\<open>xs[-1] = v\<close>: on the empty list it
  raises \<^verbatim>\<open>IndexError\<close>.
\<close>

definition set_last :: "'a list \<Rightarrow> 'a \<Rightarrow> error + 'a list" where
  "set_last xs v = (if xs = [] then Inl IndexError else Inr (xs[length xs - 1 := v]))"

definition start_ui_daemon :: "orchestrator \<Rightarrow> env \<Rightarrow> world \<Rightarrow> error + world" where
  "start_ui_daemon self e wd =
     (let port = chosen_port self e wd;
          cmd = port_forward_command self port
      in if \<not> port_available wd port
         then (case set_last cmd ''<PORT>:2746'' of
                 Inl err \<Rightarrow> Inl err
               | Inr modified_command \<Rightarrow>
                   Inr (wd\<lparr>logged := logged wd @ [occupied_warning port modified_command]\<rparr>))
         else if platform e = ''win32''
         then Inr (wd\<lparr>logged := logged wd @ [windows_warning port cmd]\<rparr>)
         else (let wd1 = run_as_daemon e cmd (pid_file_path self e) (log_file self e) wd
               in Inr (wd1\<lparr>logged := logged wd1 @ [started_info (log_file self e) port]\<rparr>)))"

definition resume :: "orchestrator \<Rightarrow> env \<Rightarrow> world \<Rightarrow> error + world" where
  "resume self e wd =
     (if is_running self e wd
      then Inr (wd\<lparr>logged := logged wd @ [Info ''Argo UI forwarding is already running.'' []]\<rparr>)
      else start_ui_daemon self e wd)"

subsection \<open>Notions used in the statements and proofs\<close>

text \<open>
  \<open>lookups_defined e pb2 D sorted_steps\<close>: starting from a dictionary with the keys \<open>D\<close>,
  every upstream name the loop looks up is a key when it is looked up.
  \<open>names_ok\<close> is the invariant of the loop: the dictionary maps a name to a task of that
  name that is in the workflow. \<open>edge_names\<close> reads the dependency edges as pairs of names.
\<close>

fun lookups_defined :: "env \<Rightarrow> pb2_pipeline \<Rightarrow> string set \<Rightarrow> step list \<Rightarrow> bool" where
  "lookups_defined e pb2 D [] = True"
| "lookups_defined e pb2 D (s # ss) =
     (set (get_upstream_step_names e s pb2) \<subseteq> insert (name s) D
      \<and> lookups_defined e pb2 (insert (name s) D) ss)"

definition names_ok :: "(string \<rightharpoonup> task) \<Rightarrow> workflow \<Rightarrow> bool" where
  "names_ok d w = (\<forall>n t. d n = Some t \<longrightarrow> task_name t = n \<and> t \<in> set (tasks w))"

definition edge_names :: "(task \<times> task) list \<Rightarrow> (string \<times> string) list" where
  "edge_names es = map (\<lambda>(a, b). (task_name a, task_name b)) es"

declare str_nat.simps [simp del]

subsection \<open>A pipeline of three steps, an orchestrator and its surroundings\<close>

text \<open>
  The steps A, B and C, where B consumes A and C consumes A and B; the concrete inputs
  at which the theorems below are instantiated.
\<close>

definition ex_self :: orchestrator where
  "ex_self = \<lparr>uuid = ''0f3a'', kubernetes_context = ''minikube'', kubernetes_namespace = ''argo'',
              argo_ui_port = 2746, skip_ui_daemon_provisioning = False\<rparr>"

definition no_resources :: resource_configuration where
  "no_resources = \<lparr>cpu_count = None, gpu_count = None, memory = None\<rparr>"

definition step_A :: step where
  "step_A = \<lparr>name = ''A'', resources = no_resources\<rparr>"

definition step_B :: step where
  "step_B = \<lparr>name = ''B'', resources = no_resources\<lparr>cpu_count := Some 2\<rparr>\<rparr>"

definition step_C :: step where
  "step_C = \<lparr>name = ''C'', resources = no_resources\<rparr>"

definition ex_pb2 :: pb2_pipeline where
  "ex_pb2 = [(''A'', []), (''B'', [''A'']), (''C'', [''A'', ''B''])]"

definition ex_env :: env where
  "ex_env =
     \<lparr>in_notebook = False, platform = ''linux'',
      global_config_directory = [''home'', ''.config'', ''zenml''],
      kube_config = Some ([''minikube'', ''prod''], ''minikube''),
      isfile = (\<lambda>f. False),
      read_token = (\<lambda>config_file service_account ns. Inr ''secret-token''),
      get_entrypoint_command = [''python'', ''-m'', ''zenml.entrypoints.step_entrypoint''],
      get_entrypoint_arguments = (\<lambda>s pb2. [''--step_name'', name s]),
      requires_resources_in_orchestration_environment = (\<lambda>s. cpu_count (resources s) \<noteq> None),
      get_upstream_step_names = (\<lambda>s pb2. case map_of pb2 (name s) of None \<Rightarrow> [] | Some us \<Rightarrow> us),
      create = (\<lambda>w. None),
      find_available_port = 50123,
      new_pid = 4242\<rparr>"

definition ex_pipeline :: base_pipeline where
  "ex_pipeline = \<lparr>pipeline_name = ''training'', docker_configuration = []\<rparr>"

definition ex_rc :: runtime_configuration where
  "ex_rc = \<lparr>docker_image = Some ''registry.example/zenml:training'', run_name = Some ''run-1'',
            schedule = None\<rparr>"

definition ex_stack :: stack where
  "ex_stack = \<lparr>container_registry =
                 Some \<lparr>component_name = ''local_registry'', flavor = ''default'', is_local = True\<rparr>,
               artifact_store = None\<rparr>"

definition ex_world :: world where
  "ex_world = \<lparr>logged = [], backend_calls = [], fs = Map.empty, alive = {}, occupied = {},
               daemons = []\<rparr>"

definition self_pb2 :: pb2_pipeline where
  "self_pb2 = [(''A'', [''A''])]"

definition scheduled_rc :: runtime_configuration where
  "scheduled_rc = ex_rc\<lparr>schedule := Some ''0 3 * * *''\<rparr>"

definition failing_env :: "error \<Rightarrow> env" where
  "failing_env err = ex_env\<lparr>create := (\<lambda>w. Some err)\<rparr>"

subsection \<open>Stacks, configurations and worlds for the validator and the lifecycle\<close>

text \<open>
  A stack with a remote registry; surroundings that differ from \<open>ex_env\<close> in what the
  validator does not read; an orchestrator that skips the UI daemon; a world whose PID
  file records a process that is gone, and the same world with the process alive; worlds
  in which the default UI port, and also the port found as free, are bound.
\<close>

definition remote_stack :: stack where
  "remote_stack = \<lparr>container_registry =
                 Some \<lparr>component_name = ''ecr'', flavor = ''aws'', is_local = False\<rparr>,
               artifact_store = None\<rparr>"

definition other_env :: env where
  "other_env = ex_env\<lparr>in_notebook := True, platform := ''win32'',
                      kube_config := Some ([''minikube'', ''prod''], ''prod'')\<rparr>"

definition skipping_self :: orchestrator where
  "skipping_self = ex_self\<lparr>skip_ui_daemon_provisioning := True\<rparr>"

definition crashed_world :: world where
  "crashed_world =
     ex_world\<lparr>fs := [root_directory ex_self ex_env \<mapsto> Directory,
                      pid_file_path ex_self ex_env \<mapsto> PidRecord 4242,
                      log_file ex_self ex_env \<mapsto> Regular],
               alive := {1, 77}\<rparr>"

definition running_world :: world where
  "running_world = crashed_world\<lparr>alive := {1, 77, 4242}\<rparr>"

definition busy_world :: world where
  "busy_world = ex_world\<lparr>occupied := {2746, 8080}\<rparr>"

definition crowded_world :: world where
  "crowded_world = ex_world\<lparr>occupied := {2746, 8080, 50123}\<rparr>"

section \<open>Properties\<close>

subsection \<open>The loop over the sorted steps\<close>

lemma wire_upstream_defined:
  "set us \<subseteq> dom d \<Longrightarrow>
   wire_upstream d cur us w = Inr (w\<lparr>dependencies := dependencies w @ map (\<lambda>u. (the (d u), cur)) us\<rparr>)"
  by (induction us arbitrary: w) auto

lemma wire_upstream_undefined:
  "\<not> set us \<subseteq> dom d \<Longrightarrow> \<exists>u. u \<in> set us \<and> u \<notin> dom d \<and> wire_upstream d cur us w = Inl (KeyError u)"
proof (induction us arbitrary: w)
  case Nil
  then show ?case by simp
next
  case (Cons a us)
  show ?case
  proof (cases "d a")
    case None
    then show ?thesis by (auto simp: dom_def)
  next
    case (Some t)
    with Cons.prems have "\<not> set us \<subseteq> dom d" by (auto simp: dom_def)
    from Cons.IH [OF this, of "w\<lparr>dependencies := dependencies w @ [(t, cur)]\<rparr>"] Some
    show ?thesis by auto
  qed
qed

lemma add_steps_defined:
  "lookups_defined e pb2 (dom d) ss \<Longrightarrow> names_ok d w \<Longrightarrow>
   \<exists>w'. add_steps e img pb2 ss d w lg
          = (lg @ map resources_warning (filter (requires_resources_in_orchestration_environment e) ss), Inr w')
      \<and> workflow_name w' = workflow_name w \<and> service w' = service w
      \<and> tasks w' = tasks w @ map (\<lambda>s. \<lparr>task_name = name s, func = ''dummy'', image = img,
             command = get_entrypoint_command e, args = get_entrypoint_arguments e s pb2\<rparr>) ss
      \<and> edge_names (dependencies w') = edge_names (dependencies w) @
           concat (map (\<lambda>s. map (\<lambda>u. (u, name s)) (get_upstream_step_names e s pb2)) ss)
      \<and> (set (dependencies w') - set (dependencies w)) \<subseteq> set (tasks w') \<times> set (tasks w')"
proof (induction ss arbitrary: d w lg)
  case Nil
  then show ?case by simp
next
  case (Cons s ss)
  let ?t = "\<lparr>task_name = name s, func = ''dummy'', image = img,
             command = get_entrypoint_command e, args = get_entrypoint_arguments e s pb2\<rparr>"
  let ?d = "d(name s \<mapsto> ?t)"
  let ?w1 = "w\<lparr>tasks := tasks w @ [?t]\<rparr>"
  let ?us = "get_upstream_step_names e s pb2"
  let ?w2 = "?w1\<lparr>dependencies := dependencies ?w1 @ map (\<lambda>u. (the (?d u), ?t)) ?us\<rparr>"
  from Cons.prems have sub: "set ?us \<subseteq> dom ?d" and rest: "lookups_defined e pb2 (dom ?d) ss"
    by auto
  have wire: "wire_upstream ?d ?t ?us ?w1 = Inr ?w2"
    using wire_upstream_defined [OF sub] by simp
  have ok: "names_ok ?d ?w2"
    using Cons.prems(2) by (auto simp: names_ok_def)
  from Cons.IH [OF rest ok] obtain w' where
    w': "add_steps e img pb2 ss ?d ?w2
           (if requires_resources_in_orchestration_environment e s then lg @ [resources_warning s] else lg)
         = ((if requires_resources_in_orchestration_environment e s then lg @ [resources_warning s] else lg)
            @ map resources_warning (filter (requires_resources_in_orchestration_environment e) ss), Inr w')"
    and n: "workflow_name w' = workflow_name ?w2" "service w' = service ?w2"
    and t: "tasks w' = tasks ?w2 @ map (\<lambda>s. \<lparr>task_name = name s, func = ''dummy'', image = img,
             command = get_entrypoint_command e, args = get_entrypoint_arguments e s pb2\<rparr>) ss"
    and d: "edge_names (dependencies w') = edge_names (dependencies ?w2) @
           concat (map (\<lambda>s. map (\<lambda>u. (u, name s)) (get_upstream_step_names e s pb2)) ss)"
    and m: "(set (dependencies w') - set (dependencies ?w2)) \<subseteq> set (tasks w') \<times> set (tasks w')"
    by blast
  have en: "edge_names (map (\<lambda>u. (the (?d u), ?t)) ?us) = map (\<lambda>u. (u, name s)) ?us"
  proof -
    have "\<And>u. u \<in> set ?us \<Longrightarrow> task_name (the (?d u)) = u"
      using sub Cons.prems(2) by (auto simp: names_ok_def dom_def)
    then show ?thesis by (simp add: edge_names_def)
  qed
  have mem: "set (map (\<lambda>u. (the (?d u), ?t)) ?us) \<subseteq> set (tasks w') \<times> set (tasks w')"
  proof -
    have "\<And>u. u \<in> set ?us \<Longrightarrow> the (?d u) \<in> set (tasks ?w2)"
      using sub ok by (fastforce simp: names_ok_def dom_def)
    then show ?thesis using t by auto
  qed
  have step: "add_steps e img pb2 (s # ss) d w lg
      = add_steps e img pb2 ss ?d ?w2
           (if requires_resources_in_orchestration_environment e s then lg @ [resources_warning s] else lg)"
    using wire by (simp add: Let_def)
  have c1: "add_steps e img pb2 (s # ss) d w lg
          = (lg @ map resources_warning (filter (requires_resources_in_orchestration_environment e) (s # ss)), Inr w')"
    unfolding step w' by simp
  have c2: "workflow_name w' = workflow_name w \<and> service w' = service w"
    using n by simp
  have c3: "tasks w' = tasks w @ map (\<lambda>s. \<lparr>task_name = name s, func = ''dummy'', image = img,
             command = get_entrypoint_command e, args = get_entrypoint_arguments e s pb2\<rparr>) (s # ss)"
    using t by simp
  have "edge_names (dependencies ?w2) = edge_names (dependencies w) @ map (\<lambda>u. (u, name s)) ?us"
    using en by (simp add: edge_names_def)
  then have c4: "edge_names (dependencies w') = edge_names (dependencies w) @
           concat (map (\<lambda>s. map (\<lambda>u. (u, name s)) (get_upstream_step_names e s pb2)) (s # ss))"
    using d by simp
  have "set (dependencies ?w2) = set (dependencies w) \<union> set (map (\<lambda>u. (the (?d u), ?t)) ?us)"
    by simp
  then have c5: "(set (dependencies w') - set (dependencies w)) \<subseteq> set (tasks w') \<times> set (tasks w')"
    using m mem by blast
  from c1 c2 c3 c4 c5 show ?case by blast
qed


lemma lookups_defined_iff:
  "lookups_defined e pb2 D ss \<longleftrightarrow>
   (\<forall>i<length ss. set (get_upstream_step_names e (ss ! i) pb2)
        \<subseteq> D \<union> name ` set (take (Suc i) ss))"
proof (induction ss arbitrary: D)
  case Nil
  then show ?case by simp
next
  case (Cons s ss)
  have eq: "\<And>i. insert (name s) D \<union> name ` set (take (Suc i) ss)
              = D \<union> name ` set (take (Suc (Suc i)) (s # ss))"
    by simp
  show ?case
    unfolding lookups_defined.simps Cons.IH [of "insert (name s) D"] All_less_Suc2 length_Cons eq
    by simp
qed

subsection \<open>Dispatch up to the submission\<close>

lemma dispatch_unfold:
  assumes "\<not> in_notebook e" and "docker_image rc = Some img" and "truthy (run_name rc)"
    and "read_token e None ''default'' (kubernetes_namespace self) = Inr tok"
  shows "prepare_or_run_pipeline self e ss pl pb2 stk rc wd =
     (case add_steps e img pb2 ss Map.empty (new_workflow self pl tok) (logged wd) of
        (lg, Inl err) \<Rightarrow>
          (wd\<lparr>backend_calls := backend_calls wd @
                 [ReadServiceAccountToken ''default'' (kubernetes_namespace self)],
              logged := lg\<rparr>, Inl err)
      | (lg, Inr w) \<Rightarrow>
          submit self e w
            (wd\<lparr>backend_calls := backend_calls wd @
                 [ReadServiceAccountToken ''default'' (kubernetes_namespace self)],
               logged := (if schedule rc \<noteq> None then lg @ [schedule_warning] else lg)
                         @ [running_info self]\<rparr>))"
  using assms by (simp add: prepare_or_run_pipeline_def get_sa_token_def del: not_None_eq)

lemma names_ok_empty: "names_ok Map.empty w"
  by (simp add: names_ok_def)

lemma dispatch_submits:
  assumes pre: "\<not> in_notebook e" "docker_image rc = Some img" "truthy (run_name rc)"
      "read_token e None ''default'' (kubernetes_namespace self) = Inr tok"
    and ld: "lookups_defined e pb2 {} ss"
  shows "\<exists>w. prepare_or_run_pipeline self e ss pl pb2 stk rc wd =
       submit self e w
         (wd\<lparr>backend_calls := backend_calls wd @
                 [ReadServiceAccountToken ''default'' (kubernetes_namespace self)],
             logged := (if schedule rc \<noteq> None
                        then (logged wd @ map resources_warning
                                (filter (requires_resources_in_orchestration_environment e) ss))
                             @ [schedule_warning]
                        else logged wd @ map resources_warning
                                (filter (requires_resources_in_orchestration_environment e) ss))
                       @ [running_info self]\<rparr>)
     \<and> workflow_name w = pipeline_name pl
     \<and> service w = service (new_workflow self pl tok)
     \<and> tasks w = map (\<lambda>s. \<lparr>task_name = name s, func = ''dummy'', image = img,
             command = get_entrypoint_command e, args = get_entrypoint_arguments e s pb2\<rparr>) ss
     \<and> edge_names (dependencies w) =
           concat (map (\<lambda>s. map (\<lambda>u. (u, name s)) (get_upstream_step_names e s pb2)) ss)
     \<and> set (dependencies w) \<subseteq> set (tasks w) \<times> set (tasks w)"
proof -
  have "lookups_defined e pb2 (dom (Map.empty :: string \<rightharpoonup> task)) ss" using ld by simp
  from add_steps_defined [OF this names_ok_empty, of img "new_workflow self pl tok" "logged wd"]
  obtain w where
    a: "add_steps e img pb2 ss Map.empty (new_workflow self pl tok) (logged wd)
        = (logged wd @ map resources_warning
             (filter (requires_resources_in_orchestration_environment e) ss), Inr w)"
    and b: "workflow_name w = workflow_name (new_workflow self pl tok)"
      "service w = service (new_workflow self pl tok)"
    and c: "tasks w = tasks (new_workflow self pl tok) @
          map (\<lambda>s. \<lparr>task_name = name s, func = ''dummy'', image = img,
             command = get_entrypoint_command e, args = get_entrypoint_arguments e s pb2\<rparr>) ss"
    and d: "edge_names (dependencies w) = edge_names (dependencies (new_workflow self pl tok)) @
           concat (map (\<lambda>s. map (\<lambda>u. (u, name s)) (get_upstream_step_names e s pb2)) ss)"
    and m: "(set (dependencies w) - set (dependencies (new_workflow self pl tok)))
             \<subseteq> set (tasks w) \<times> set (tasks w)"
    by blast
  have 1: "prepare_or_run_pipeline self e ss pl pb2 stk rc wd =
       submit self e w
         (wd\<lparr>backend_calls := backend_calls wd @
                 [ReadServiceAccountToken ''default'' (kubernetes_namespace self)],
             logged := (if schedule rc \<noteq> None
                        then (logged wd @ map resources_warning
                                (filter (requires_resources_in_orchestration_environment e) ss))
                             @ [schedule_warning]
                        else logged wd @ map resources_warning
                                (filter (requires_resources_in_orchestration_environment e) ss))
                       @ [running_info self]\<rparr>)"
    unfolding dispatch_unfold [OF pre] a by simp
  have 2: "workflow_name w = pipeline_name pl" using b by (simp add: new_workflow_def)
  have 3: "tasks w = map (\<lambda>s. \<lparr>task_name = name s, func = ''dummy'', image = img,
             command = get_entrypoint_command e, args = get_entrypoint_arguments e s pb2\<rparr>) ss"
    using c by (simp add: new_workflow_def)
  have 4: "edge_names (dependencies w) =
           concat (map (\<lambda>s. map (\<lambda>u. (u, name s)) (get_upstream_step_names e s pb2)) ss)"
    using d by (simp add: new_workflow_def edge_names_def)
  have 5: "set (dependencies w) \<subseteq> set (tasks w) \<times> set (tasks w)"
    using m by (simp add: new_workflow_def)
  show ?thesis by (rule exI [of _ w]) (intro conjI 1 2 b(2) 3 4 5)
qed

lemma submit_calls:
  "backend_calls (fst (submit self e w wd)) = backend_calls wd @ [CreateWorkflow w]"
  by (simp add: submit_def Let_def split: option.splits error.splits)

lemma submit_frame:
  "fst (submit self e w wd) = wd\<lparr>backend_calls := backend_calls wd @ [CreateWorkflow w]\<rparr>"
  by (simp add: submit_def Let_def split: option.splits error.splits)

lemma submit_result:
  "snd (submit self e w wd) =
     (case create e w of None \<Rightarrow> Inr ()
      | Some (CalledProcessError m) \<Rightarrow> Inl (RuntimeError (upload_failure_message self m))
      | Some other \<Rightarrow> Inl other)"
  by (simp add: submit_def Let_def split: option.splits error.splits)

lemma ex_hyp: "\<forall>i<length [step_A, step_B, step_C].
           set (get_upstream_step_names ex_env ([step_A, step_B, step_C] ! i) ex_pb2)
             \<subseteq> name ` set (take i [step_A, step_B, step_C])"
  by (auto simp add: All_less_Suc2 ex_env_def ex_pb2_def step_A_def step_B_def step_C_def)



lemma add_steps_missing_key:
  "\<not> lookups_defined e pb2 (dom d) ss \<Longrightarrow>
   \<exists>lg' u i. add_steps e img pb2 ss d w lg = (lg', Inl (KeyError u))
      \<and> i < length ss \<and> u \<in> set (get_upstream_step_names e (ss ! i) pb2)
      \<and> u \<notin> dom d \<and> u \<notin> name ` set (take (Suc i) ss)"
proof (induction ss arbitrary: d w lg)
  case Nil
  then show ?case by simp
next
  case (Cons s ss)
  let ?t = "\<lparr>task_name = name s, func = ''dummy'', image = img,
             command = get_entrypoint_command e, args = get_entrypoint_arguments e s pb2\<rparr>"
  let ?d = "d(name s \<mapsto> ?t)"
  let ?w1 = "w\<lparr>tasks := tasks w @ [?t]\<rparr>"
  let ?us = "get_upstream_step_names e s pb2"
  show ?case
  proof (cases "set ?us \<subseteq> dom ?d")
    case True
    with Cons.prems have rest: "\<not> lookups_defined e pb2 (dom ?d) ss" by auto
    have wire: "wire_upstream ?d ?t ?us ?w1
        = Inr (?w1\<lparr>dependencies := dependencies ?w1 @ map (\<lambda>u. (the (?d u), ?t)) ?us\<rparr>)"
      by (rule wire_upstream_defined [OF True])
    let ?w2 = "?w1\<lparr>dependencies := dependencies ?w1 @ map (\<lambda>u. (the (?d u), ?t)) ?us\<rparr>"
    let ?lg1 = "if requires_resources_in_orchestration_environment e s
                then lg @ [resources_warning s] else lg"
    have step: "add_steps e img pb2 (s # ss) d w lg = add_steps e img pb2 ss ?d ?w2 ?lg1"
      using wire by (simp add: Let_def)
    from Cons.IH [OF rest, of ?w2 ?lg1] obtain lg' u i where
      r: "add_steps e img pb2 ss ?d ?w2 ?lg1 = (lg', Inl (KeyError u))"
      and i: "i < length ss" "u \<in> set (get_upstream_step_names e (ss ! i) pb2)"
      and n: "u \<notin> dom ?d" "u \<notin> name ` set (take (Suc i) ss)" by blast
    have 1: "add_steps e img pb2 (s # ss) d w lg = (lg', Inl (KeyError u))"
      unfolding step r ..
    have 2: "Suc i < length (s # ss)" using i by simp
    have 3: "u \<in> set (get_upstream_step_names e ((s # ss) ! Suc i) pb2)" using i by simp
    have 4: "u \<notin> dom d" using n(1) by auto
    have 5: "u \<notin> name ` set (take (Suc (Suc i)) (s # ss))" using n by auto
    show ?thesis
      by (rule exI [of _ lg'], rule exI [of _ u], rule exI [of _ "Suc i"]) (intro conjI 1 2 3 4 5)
  next
    case False
    from wire_upstream_undefined [OF False, of ?t ?w1] obtain u where
      u: "u \<in> set ?us" "u \<notin> dom ?d" "wire_upstream ?d ?t ?us ?w1 = Inl (KeyError u)" by blast
    let ?lg1 = "if requires_resources_in_orchestration_environment e s
                then lg @ [resources_warning s] else lg"
    have 1: "add_steps e img pb2 (s # ss) d w lg = (?lg1, Inl (KeyError u))"
      using u(3) by (simp add: Let_def)
    have 2: "0 < length (s # ss)" by simp
    have 3: "u \<in> set (get_upstream_step_names e ((s # ss) ! 0) pb2)" using u(1) by simp
    have 4: "u \<notin> dom d" using u(2) by auto
    have 5: "u \<notin> name ` set (take (Suc 0) (s # ss))" using u(2) by auto
    show ?thesis
      by (rule exI [of _ ?lg1], rule exI [of _ u], rule exI [of _ 0]) (intro conjI 1 2 3 4 5)
  qed
qed

lemma dispatch_missing_key:
  assumes pre: "\<not> in_notebook e" "docker_image rc = Some img" "truthy (run_name rc)"
      "read_token e None ''default'' (kubernetes_namespace self) = Inr tok"
    and ld: "\<not> lookups_defined e pb2 {} ss"
  shows "\<exists>lg u i. prepare_or_run_pipeline self e ss pl pb2 stk rc wd =
       (wd\<lparr>backend_calls := backend_calls wd @
                 [ReadServiceAccountToken ''default'' (kubernetes_namespace self)],
           logged := lg\<rparr>, Inl (KeyError u))
     \<and> i < length ss \<and> u \<in> set (get_upstream_step_names e (ss ! i) pb2)
     \<and> u \<notin> name ` set (take (Suc i) ss)"
proof -
  have "\<not> lookups_defined e pb2 (dom (Map.empty :: string \<rightharpoonup> task)) ss" using ld by simp
  from add_steps_missing_key [OF this, of img "new_workflow self pl tok" "logged wd"]
  obtain lg u i where
    a: "add_steps e img pb2 ss Map.empty (new_workflow self pl tok) (logged wd)
        = (lg, Inl (KeyError u))"
    and b: "i < length ss" "u \<in> set (get_upstream_step_names e (ss ! i) pb2)"
      "u \<notin> name ` set (take (Suc i) ss)"
    by blast
  have 1: "prepare_or_run_pipeline self e ss pl pb2 stk rc wd =
       (wd\<lparr>backend_calls := backend_calls wd @
                 [ReadServiceAccountToken ''default'' (kubernetes_namespace self)],
           logged := lg\<rparr>, Inl (KeyError u))"
    unfolding dispatch_unfold [OF pre] a by simp
  show ?thesis
    by (rule exI [of _ lg], rule exI [of _ u], rule exI [of _ i]) (intro conjI 1 b)
qed

lemma ex_hyp_le: "\<forall>i<length [step_A, step_B, step_C].
           set (get_upstream_step_names ex_env ([step_A, step_B, step_C] ! i) ex_pb2)
             \<subseteq> name ` set (take (Suc i) [step_A, step_B, step_C])"
  by (auto simp add: All_less_Suc2 ex_env_def ex_pb2_def step_A_def step_B_def step_C_def)

lemma ex_hyp_violated: "\<not> (\<forall>i<length [step_B, step_A].
           set (get_upstream_step_names ex_env ([step_B, step_A] ! i) ex_pb2)
             \<subseteq> name ` set (take (Suc i) [step_B, step_A]))"
  by (auto simp add: All_less_Suc2 ex_env_def ex_pb2_def step_A_def step_B_def)

lemma ex_pre:
  "\<not> in_notebook ex_env" "docker_image ex_rc = Some ''registry.example/zenml:training''"
  "truthy (run_name ex_rc)"
  "read_token ex_env None ''default'' (kubernetes_namespace ex_self) = Inr ''secret-token''"
  by (simp_all add: ex_env_def ex_rc_def truthy_def)

lemma add_steps_result_independent:
  "snd (add_steps (e\<lparr>requires_resources_in_orchestration_environment := f\<rparr>) img pb2 ss d w lg)
   = snd (add_steps e img pb2 ss d w lg')"
proof (induction ss arbitrary: d w lg lg')
  case Nil
  then show ?case by simp
next
  case (Cons s ss)
  let ?t = "\<lparr>task_name = name s, func = ''dummy'', image = img,
             command = get_entrypoint_command e, args = get_entrypoint_arguments e s pb2\<rparr>"
  let ?d = "d(name s \<mapsto> ?t)"
  let ?w1 = "w\<lparr>tasks := tasks w @ [?t]\<rparr>"
  show ?case
  proof (cases "wire_upstream ?d ?t (get_upstream_step_names e s pb2) ?w1")
    case (Inl err)
    then show ?thesis by (simp add: Let_def)
  next
    case (Inr w2)
    then show ?thesis using Cons.IH by (simp add: Let_def)
  qed
qed

lemma add_steps_log:
  "add_steps e img pb2 ss d w lg = (lg', Inr w') \<Longrightarrow>
   lg' = lg @ map resources_warning (filter (requires_resources_in_orchestration_environment e) ss)"
proof (induction ss arbitrary: d w lg)
  case Nil
  then show ?case by simp
next
  case (Cons s ss)
  let ?t = "\<lparr>task_name = name s, func = ''dummy'', image = img,
             command = get_entrypoint_command e, args = get_entrypoint_arguments e s pb2\<rparr>"
  let ?d = "d(name s \<mapsto> ?t)"
  let ?w1 = "w\<lparr>tasks := tasks w @ [?t]\<rparr>"
  show ?case
  proof (cases "wire_upstream ?d ?t (get_upstream_step_names e s pb2) ?w1")
    case (Inl err)
    with Cons.prems show ?thesis by (simp add: Let_def)
  next
    case (Inr w2)
    with Cons.prems have "add_steps e img pb2 ss ?d w2
        (if requires_resources_in_orchestration_environment e s
         then lg @ [resources_warning s] else lg) = (lg', Inr w')"
      by (simp add: Let_def)
    from Cons.IH [OF this] show ?thesis by simp
  qed
qed

lemma dispatch_cases:
  "prepare_or_run_pipeline self e ss pl pb2 stk rc wd =
     (if in_notebook e then (wd, Inl (RuntimeError notebook_message))
      else if docker_image rc = None then (wd, Inl (KeyError ''docker_image''))
      else if \<not> truthy (run_name rc) then (wd, Inl AssertionError)
      else case read_token e None ''default'' (kubernetes_namespace self) of
             Inl err \<Rightarrow>
               (wd\<lparr>backend_calls := backend_calls wd @
                     [ReadServiceAccountToken ''default'' (kubernetes_namespace self)]\<rparr>, Inl err)
           | Inr tok \<Rightarrow>
               (case snd (add_steps e (the (docker_image rc)) pb2 ss Map.empty
                            (new_workflow self pl tok) (logged wd)) of
                  Inl err \<Rightarrow>
                    (wd\<lparr>backend_calls := backend_calls wd @
                          [ReadServiceAccountToken ''default'' (kubernetes_namespace self)],
                        logged := fst (add_steps e (the (docker_image rc)) pb2 ss Map.empty
                                        (new_workflow self pl tok) (logged wd))\<rparr>, Inl err)
                | Inr w \<Rightarrow>
                    submit self e w
                      (wd\<lparr>backend_calls := backend_calls wd @
                            [ReadServiceAccountToken ''default'' (kubernetes_namespace self)],
                          logged :=
                            (if schedule rc \<noteq> None
                             then fst (add_steps e (the (docker_image rc)) pb2 ss Map.empty
                                        (new_workflow self pl tok) (logged wd)) @ [schedule_warning]
                             else fst (add_steps e (the (docker_image rc)) pb2 ss Map.empty
                                        (new_workflow self pl tok) (logged wd)))
                            @ [running_info self]\<rparr>)))"
  by (simp add: prepare_or_run_pipeline_def get_sa_token_def
      split: option.splits sum.splits prod.splits del: not_None_eq)

lemma submit_env:
  "submit self (e\<lparr>requires_resources_in_orchestration_environment := f\<rparr>) w wd = submit self e w wd"
  by (simp add: submit_def)

lemma submit_logged:
  "submit self e w (wd\<lparr>logged := lg\<rparr>) =
   ((fst (submit self e w wd))\<lparr>logged := lg\<rparr>, snd (submit self e w wd))"
  by (simp add: submit_def Let_def split: option.splits error.splits)

lemma dispatch_features:
  "snd (prepare_or_run_pipeline self e ss pl pb2 stk rc wd)
   = snd (prepare_or_run_pipeline self
            (e\<lparr>requires_resources_in_orchestration_environment := f\<rparr>) ss pl pb2 stk
            (rc\<lparr>schedule := sch\<rparr>) wd)
   \<and> fst (prepare_or_run_pipeline self e ss pl pb2 stk rc wd)
   = (fst (prepare_or_run_pipeline self
            (e\<lparr>requires_resources_in_orchestration_environment := f\<rparr>) ss pl pb2 stk
            (rc\<lparr>schedule := sch\<rparr>) wd))
       \<lparr>logged := logged (fst (prepare_or_run_pipeline self e ss pl pb2 stk rc wd))\<rparr>"
proof -
  have ind: "\<And>img tok. snd (add_steps (e\<lparr>requires_resources_in_orchestration_environment := f\<rparr>)
                  img pb2 ss Map.empty (new_workflow self pl tok) (logged wd))
        = snd (add_steps e img pb2 ss Map.empty (new_workflow self pl tok) (logged wd))"
    by (rule add_steps_result_independent)
  show ?thesis
    unfolding dispatch_cases [of self e] dispatch_cases [of self "e\<lparr>requires_resources_in_orchestration_environment := f\<rparr>"]
    by (simp add: ind submit_env submit_logged split: sum.splits del: not_None_eq)
qed

lemma dispatch_success_workflow:
  assumes ok: "snd (prepare_or_run_pipeline self e ss pl pb2 stk rc wd) = Inr ()"
  shows "\<exists>w. fst (prepare_or_run_pipeline self e ss pl pb2 stk rc wd)
            = wd\<lparr>backend_calls := backend_calls wd @
                    [ReadServiceAccountToken ''default'' (kubernetes_namespace self),
                     CreateWorkflow w],
                  logged := (if schedule rc \<noteq> None
                        then (logged wd @ map resources_warning
                                (filter (requires_resources_in_orchestration_environment e) ss))
                             @ [schedule_warning]
                        else logged wd @ map resources_warning
                                (filter (requires_resources_in_orchestration_environment e) ss))
                       @ [running_info self]\<rparr>
     \<and> tasks w = map (\<lambda>s. \<lparr>task_name = name s, func = ''dummy'', image = the (docker_image rc),
             command = get_entrypoint_command e, args = get_entrypoint_arguments e s pb2\<rparr>) ss
     \<and> edge_names (dependencies w) =
           concat (map (\<lambda>s. map (\<lambda>u. (u, name s)) (get_upstream_step_names e s pb2)) ss)"
proof -
  let ?r = "prepare_or_run_pipeline self e ss pl pb2 stk rc wd"
  let ?tok = "read_token e None ''default'' (kubernetes_namespace self)"
  from ok have a: "\<not> in_notebook e" "docker_image rc \<noteq> None" "truthy (run_name rc)"
    unfolding dispatch_cases by (auto split: if_splits)
  from a(2) have img: "docker_image rc = Some (the (docker_image rc))" by simp
  from ok a obtain tok where tok: "?tok = Inr tok"
    unfolding dispatch_cases by (cases ?tok) auto
  have ld: "lookups_defined e pb2 {} ss"
  proof (rule ccontr)
    assume "\<not> lookups_defined e pb2 {} ss"
    from dispatch_missing_key [OF a(1) img a(3) tok this, of pl stk wd]
    obtain lg u where "?r = (wd\<lparr>backend_calls := backend_calls wd @
                 [ReadServiceAccountToken ''default'' (kubernetes_namespace self)],
           logged := lg\<rparr>, Inl (KeyError u))" by blast
    with ok show False by simp
  qed
  from dispatch_submits [OF a(1) img a(3) tok ld, of pl stk wd] obtain w where
    r: "?r = submit self e w
         (wd\<lparr>backend_calls := backend_calls wd @
                 [ReadServiceAccountToken ''default'' (kubernetes_namespace self)],
             logged := (if schedule rc \<noteq> None
                        then (logged wd @ map resources_warning
                                (filter (requires_resources_in_orchestration_environment e) ss))
                             @ [schedule_warning]
                        else logged wd @ map resources_warning
                                (filter (requires_resources_in_orchestration_environment e) ss))
                       @ [running_info self]\<rparr>)"
    and t: "tasks w = map (\<lambda>s. \<lparr>task_name = name s, func = ''dummy'', image = the (docker_image rc),
             command = get_entrypoint_command e, args = get_entrypoint_arguments e s pb2\<rparr>) ss"
    and d: "edge_names (dependencies w) =
           concat (map (\<lambda>s. map (\<lambda>u. (u, name s)) (get_upstream_step_names e s pb2)) ss)"
    by blast
  have 1: "fst ?r = wd\<lparr>backend_calls := backend_calls wd @
                    [ReadServiceAccountToken ''default'' (kubernetes_namespace self),
                     CreateWorkflow w],
                  logged := (if schedule rc \<noteq> None
                        then (logged wd @ map resources_warning
                                (filter (requires_resources_in_orchestration_environment e) ss))
                             @ [schedule_warning]
                        else logged wd @ map resources_warning
                                (filter (requires_resources_in_orchestration_environment e) ss))
                       @ [running_info self]\<rparr>"
    unfolding r submit_frame by simp
  show ?thesis by (rule exI [of _ w]) (intro conjI 1 t d)
qed

lemma ex_plain_run:
  "snd (prepare_or_run_pipeline ex_self
          (ex_env\<lparr>requires_resources_in_orchestration_environment := (\<lambda>s. False)\<rparr>)
          [step_A, step_B, step_C] ex_pipeline ex_pb2 ex_stack
          (scheduled_rc\<lparr>schedule := None\<rparr>) ex_world) = Inr ()"
  by (simp add: prepare_or_run_pipeline_def get_sa_token_def submit_def truthy_def Let_def
      ex_env_def ex_rc_def scheduled_rc_def ex_self_def ex_pb2_def step_A_def step_B_def step_C_def)

lemma context_in_message:
  "sublist (kubernetes_context self) (upload_failure_message self m)
   \<and> sublist m (upload_failure_message self m)"
proof
  show "sublist (kubernetes_context self) (upload_failure_message self m)"
    unfolding upload_failure_message_def sublist_def
    by (rule exI [of _ "''Failed to upload Argo pipeline: '' @ m @ ''. '' @
         ''Please make sure your kubernetes config is present and the ''"],
        rule exI [of _ "'' kubernetes context is configured '' @ ''correctly.''"]) simp
  show "sublist m (upload_failure_message self m)"
    unfolding upload_failure_message_def sublist_def
    by (rule exI [of _ "''Failed to upload Argo pipeline: ''"],
        rule exI [of _ "''. '' @
         ''Please make sure your kubernetes config is present and the '' @
         kubernetes_context self @ '' kubernetes context is configured '' @ ''correctly.''"]) simp
qed

subsection \<open>Dispatch: the claims\<close>

text \<open>
  C1. When the dispatch is not stopped before the loop (no notebook, the image and the run
  name are set, the service account token is read) and every upstream step of a step
  precedes it in \<^verbatim>\<open>sorted_steps\<close>, one workflow is submitted; it holds one task per step,
  every dependency edge joins two of its tasks, and the edges, read as pairs of step
  names, are exactly the pairs (upstream step, step) of the upstream relation.
\<close>

theorem dependency_edges_equal_upstream_relation:
  assumes "\<not> in_notebook e" and "docker_image rc = Some image_name"
    and "truthy (run_name rc)"
    and "read_token e None ''default'' (kubernetes_namespace self) = Inr tok"
    and "\<forall>i<length sorted_steps.
           set (get_upstream_step_names e (sorted_steps ! i) pb2)
             \<subseteq> name ` set (take i sorted_steps)"
  shows "\<exists>w. backend_calls (fst (prepare_or_run_pipeline self e sorted_steps pipeline pb2 stk rc wd))
             = backend_calls wd @
               [ReadServiceAccountToken ''default'' (kubernetes_namespace self), CreateWorkflow w]
     \<and> map task_name (tasks w) = map name sorted_steps
     \<and> set (dependencies w) \<subseteq> set (tasks w) \<times> set (tasks w)
     \<and> (\<lambda>(a, b). (task_name a, task_name b)) ` set (dependencies w)
         = {(u, name s) | u s. s \<in> set sorted_steps
                              \<and> u \<in> set (get_upstream_step_names e s pb2)}"
proof -
  have sub: "\<And>i. set (take i sorted_steps) \<subseteq> set (take (Suc i) sorted_steps)"
    by (rule set_take_subset_set_take) simp
  have "lookups_defined e pb2 {} sorted_steps"
    unfolding lookups_defined_iff
  proof (intro allI impI)
    fix i assume "i < length sorted_steps"
    with assms(5) have "set (get_upstream_step_names e (sorted_steps ! i) pb2)
             \<subseteq> name ` set (take i sorted_steps)" by simp
    also have "\<dots> \<subseteq> {} \<union> name ` set (take (Suc i) sorted_steps)"
      using sub [of i] by auto
    finally show "set (get_upstream_step_names e (sorted_steps ! i) pb2)
             \<subseteq> {} \<union> name ` set (take (Suc i) sorted_steps)" .
  qed
  from dispatch_submits [OF assms(1-4) this, of pipeline stk wd] obtain w where
    r: "prepare_or_run_pipeline self e sorted_steps pipeline pb2 stk rc wd =
       submit self e w
         (wd\<lparr>backend_calls := backend_calls wd @
                 [ReadServiceAccountToken ''default'' (kubernetes_namespace self)],
             logged := (if schedule rc \<noteq> None
                        then (logged wd @ map resources_warning
                                (filter (requires_resources_in_orchestration_environment e) sorted_steps))
                             @ [schedule_warning]
                        else logged wd @ map resources_warning
                                (filter (requires_resources_in_orchestration_environment e) sorted_steps))
                       @ [running_info self]\<rparr>)"
    and t: "tasks w = map (\<lambda>s. \<lparr>task_name = name s, func = ''dummy'', image = image_name,
             command = get_entrypoint_command e, args = get_entrypoint_arguments e s pb2\<rparr>) sorted_steps"
    and d: "edge_names (dependencies w) =
           concat (map (\<lambda>s. map (\<lambda>u. (u, name s)) (get_upstream_step_names e s pb2)) sorted_steps)"
    and m: "set (dependencies w) \<subseteq> set (tasks w) \<times> set (tasks w)"
    by blast
  have 1: "backend_calls (fst (prepare_or_run_pipeline self e sorted_steps pipeline pb2 stk rc wd))
             = backend_calls wd @
               [ReadServiceAccountToken ''default'' (kubernetes_namespace self), CreateWorkflow w]"
    unfolding r submit_calls by simp
  have 2: "map task_name (tasks w) = map name sorted_steps"
    unfolding t by (simp add: comp_def)
  have "(\<lambda>(a, b). (task_name a, task_name b)) ` set (dependencies w)
          = set (edge_names (dependencies w))"
    by (simp add: edge_names_def)
  also have "\<dots> = {(u, name s) | u s. s \<in> set sorted_steps
                              \<and> u \<in> set (get_upstream_step_names e s pb2)}"
    unfolding d by auto
  finally have 3: "(\<lambda>(a, b). (task_name a, task_name b)) ` set (dependencies w)
         = {(u, name s) | u s. s \<in> set sorted_steps
                              \<and> u \<in> set (get_upstream_step_names e s pb2)}" .
  show ?thesis by (rule exI [of _ w]) (intro conjI 1 2 m 3)
qed

theorem dependency_edges_equal_upstream_relation_witness:
  "\<exists>w. backend_calls (fst (prepare_or_run_pipeline ex_self ex_env [step_A, step_B, step_C]
                              ex_pipeline ex_pb2 ex_stack ex_rc ex_world))
          = [ReadServiceAccountToken ''default'' ''argo'', CreateWorkflow w]
     \<and> map task_name (tasks w) = [''A'', ''B'', ''C'']
     \<and> set (dependencies w) \<subseteq> set (tasks w) \<times> set (tasks w)
     \<and> (\<lambda>(a, b). (task_name a, task_name b)) ` set (dependencies w)
         = {(''A'', ''B''), (''A'', ''C''), (''B'', ''C'')}"
proof -
  have h1: "\<not> in_notebook ex_env" by (simp add: ex_env_def)
  have h2: "docker_image ex_rc = Some ''registry.example/zenml:training''" by (simp add: ex_rc_def)
  have h3: "truthy (run_name ex_rc)" by (simp add: ex_rc_def truthy_def)
  have h4: "read_token ex_env None ''default'' (kubernetes_namespace ex_self) = Inr ''secret-token''"
    by (simp add: ex_env_def)
  have rel: "{(u, name s) | u s. s \<in> set [step_A, step_B, step_C]
                              \<and> u \<in> set (get_upstream_step_names ex_env s ex_pb2)}
             = {(''A'', ''B''), (''A'', ''C''), (''B'', ''C'')}"
  proof -
    have "{(u, name s) | u s. s \<in> set [step_A, step_B, step_C]
                              \<and> u \<in> set (get_upstream_step_names ex_env s ex_pb2)}
          = set (concat (map (\<lambda>s. map (\<lambda>u. (u, name s)) (get_upstream_step_names ex_env s ex_pb2))
                   [step_A, step_B, step_C]))"
      unfolding set_concat by auto
    also have "\<dots> = {(''A'', ''B''), (''A'', ''C''), (''B'', ''C'')}"
      by (simp add: ex_env_def ex_pb2_def step_A_def step_B_def step_C_def)
    finally show ?thesis .
  qed
  have ns: "kubernetes_namespace ex_self = ''argo''" by (simp add: ex_self_def)
  have nm: "map name [step_A, step_B, step_C] = [''A'', ''B'', ''C'']"
    by (simp add: step_A_def step_B_def step_C_def)
  have bc: "backend_calls ex_world = []" by (simp add: ex_world_def)
  from dependency_edges_equal_upstream_relation [OF h1 h2 h3 h4 ex_hyp,
      of ex_pipeline ex_stack ex_world]
  show ?thesis
    unfolding rel ns nm bc by simp
qed

text \<open>
  C2. Called from a notebook, \<^verbatim>\<open>prepare_or_run_pipeline\<close> raises the \<^verbatim>\<open>RuntimeError\<close> and
  returns the world it was given: no backend call, no task, no submission, no log record.
\<close>

theorem notebook_rejected:
  assumes "in_notebook e"
  shows "prepare_or_run_pipeline self e sorted_steps pipeline pb2 stk rc wd
         = (wd, Inl (RuntimeError notebook_message))"
  using assms by (simp add: prepare_or_run_pipeline_def)

theorem notebook_rejected_witness:
  "in_notebook (ex_env\<lparr>in_notebook := True\<rparr>)
   \<and> prepare_or_run_pipeline ex_self (ex_env\<lparr>in_notebook := True\<rparr>) [step_A, step_B, step_C]
         ex_pipeline ex_pb2 ex_stack ex_rc ex_world
       = (ex_world, Inl (RuntimeError notebook_message))"
  using notebook_rejected [of "ex_env\<lparr>in_notebook := True\<rparr>" ex_self "[step_A, step_B, step_C]"
      ex_pipeline ex_pb2 ex_stack ex_rc ex_world]
  by simp

text \<open>
  C3. Unsupported features are not fatal. A dispatch with a schedule and with steps that
  request resources has the result (success or the same exception) and the world of the
  dispatch with the schedule and the resource requests taken away, apart from the log.
  When that plain dispatch succeeds, so does the dispatch with the features: the workflow
  is created once, immediately, with one task per step (name, image, command and
  arguments; a task carries no resources) and the edges of the upstream relation; the log
  grows by the resource warning for every step that requests resources, naming the step,
  then the schedule warning if a schedule is set, then the record of the run.
\<close>

theorem unsupported_features_not_fatal:
  "snd (prepare_or_run_pipeline self e sorted_steps pipeline pb2 stk rc wd)
   = snd (prepare_or_run_pipeline self
            (e\<lparr>requires_resources_in_orchestration_environment := (\<lambda>s. False)\<rparr>)
            sorted_steps pipeline pb2 stk (rc\<lparr>schedule := None\<rparr>) wd)
   \<and> fst (prepare_or_run_pipeline self e sorted_steps pipeline pb2 stk rc wd)
   = (fst (prepare_or_run_pipeline self
            (e\<lparr>requires_resources_in_orchestration_environment := (\<lambda>s. False)\<rparr>)
            sorted_steps pipeline pb2 stk (rc\<lparr>schedule := None\<rparr>) wd))
       \<lparr>logged := logged (fst (prepare_or_run_pipeline self e sorted_steps pipeline pb2 stk rc wd))\<rparr>
   \<and> (snd (prepare_or_run_pipeline self
            (e\<lparr>requires_resources_in_orchestration_environment := (\<lambda>s. False)\<rparr>)
            sorted_steps pipeline pb2 stk (rc\<lparr>schedule := None\<rparr>) wd) = Inr ()
      \<longrightarrow> snd (prepare_or_run_pipeline self e sorted_steps pipeline pb2 stk rc wd) = Inr ()
        \<and> (\<exists>w. backend_calls (fst (prepare_or_run_pipeline self e sorted_steps pipeline pb2 stk rc wd))
                 = backend_calls wd @
                   [ReadServiceAccountToken ''default'' (kubernetes_namespace self),
                    CreateWorkflow w]
               \<and> tasks w =
                   map (\<lambda>s. \<lparr>task_name = name s, func = ''dummy'',
                              image = the (docker_image rc),
                              command = get_entrypoint_command e,
                              args = get_entrypoint_arguments e s pb2\<rparr>) sorted_steps
               \<and> map (\<lambda>(a, b). (task_name a, task_name b)) (dependencies w) =
                   concat (map (\<lambda>s. map (\<lambda>u. (u, name s)) (get_upstream_step_names e s pb2))
                             sorted_steps))
        \<and> logged (fst (prepare_or_run_pipeline self e sorted_steps pipeline pb2 stk rc wd))
            = logged wd
              @ map (\<lambda>s. Warning (''Specifying step resources is not yet supported for '' @
                                   ''the Airflow orchestrator, ignoring resource '' @
                                   ''configuration for step %s.'') [Str (name s)])
                    (filter (requires_resources_in_orchestration_environment e) sorted_steps)
              @ (if schedule rc \<noteq> None
                 then [Warning (''The Argo Orchestrator currently does not support the '' @
                                ''use of schedules. The `schedule` will be ignored '' @
                                ''and the pipeline will be run immediately.'') []]
                 else [])
              @ [Info (''Running Argo pipeline in kubernetes context '' @ [CHR 0x27] @ ''%s'' @
                       [CHR 0x27] @ '' and namespace '' @ [CHR 0x27] @ ''%s'' @ [CHR 0x27] @ ''.'')
                      [Str (kubernetes_context self), Str (kubernetes_namespace self)]]
        \<and> (schedule rc \<noteq> None \<longrightarrow>
             Warning (''The Argo Orchestrator currently does not support the '' @
                      ''use of schedules. The `schedule` will be ignored '' @
                      ''and the pipeline will be run immediately.'') []
               \<in> set (logged (fst (prepare_or_run_pipeline self e sorted_steps
                                      pipeline pb2 stk rc wd))))
        \<and> (\<forall>s \<in> set sorted_steps. requires_resources_in_orchestration_environment e s \<longrightarrow>
             Warning (''Specifying step resources is not yet supported for '' @
                      ''the Airflow orchestrator, ignoring resource '' @
                      ''configuration for step %s.'') [Str (name s)]
               \<in> set (logged (fst (prepare_or_run_pipeline self e sorted_steps
                                      pipeline pb2 stk rc wd)))))"
proof -
  let ?r = "prepare_or_run_pipeline self e sorted_steps pipeline pb2 stk rc wd"
  let ?plain = "prepare_or_run_pipeline self
            (e\<lparr>requires_resources_in_orchestration_environment := (\<lambda>s. False)\<rparr>)
            sorted_steps pipeline pb2 stk (rc\<lparr>schedule := None\<rparr>) wd"
  let ?rw = "\<lambda>s. Warning (''Specifying step resources is not yet supported for '' @
                                   ''the Airflow orchestrator, ignoring resource '' @
                                   ''configuration for step %s.'') [Str (name s)]"
  let ?sw = "Warning (''The Argo Orchestrator currently does not support the '' @
                                ''use of schedules. The `schedule` will be ignored '' @
                                ''and the pipeline will be run immediately.'') []"
  let ?info = "Info (''Running Argo pipeline in kubernetes context '' @ [CHR 0x27] @ ''%s'' @
                       [CHR 0x27] @ '' and namespace '' @ [CHR 0x27] @ ''%s'' @ [CHR 0x27] @ ''.'')
                      [Str (kubernetes_context self), Str (kubernetes_namespace self)]"
  let ?mk = "\<lambda>s. \<lparr>task_name = name s, func = ''dummy'', image = the (docker_image rc),
                   command = get_entrypoint_command e,
                   args = get_entrypoint_arguments e s pb2\<rparr>"
  let ?rel = "concat (map (\<lambda>s. map (\<lambda>u. (u, name s)) (get_upstream_step_names e s pb2))
                             sorted_steps)"
  note f = dispatch_features [of self e sorted_steps pipeline pb2 stk rc wd "\<lambda>s. False" None]
  have 1: "snd ?r = snd ?plain" using f by (rule conjunct1)
  have 2: "fst ?r = (fst ?plain)\<lparr>logged := logged (fst ?r)\<rparr>" using f by (rule conjunct2)
  have 3: "snd ?plain = Inr () \<longrightarrow> snd ?r = Inr ()
        \<and> (\<exists>w. backend_calls (fst ?r) = backend_calls wd @
                   [ReadServiceAccountToken ''default'' (kubernetes_namespace self),
                    CreateWorkflow w]
               \<and> tasks w = map ?mk sorted_steps
               \<and> map (\<lambda>(a, b). (task_name a, task_name b)) (dependencies w) = ?rel)
        \<and> logged (fst ?r) = logged wd
              @ map ?rw (filter (requires_resources_in_orchestration_environment e) sorted_steps)
              @ (if schedule rc \<noteq> None then [?sw] else []) @ [?info]
        \<and> (schedule rc \<noteq> None \<longrightarrow> ?sw \<in> set (logged (fst ?r)))
        \<and> (\<forall>s \<in> set sorted_steps. requires_resources_in_orchestration_environment e s \<longrightarrow>
             ?rw s \<in> set (logged (fst ?r)))"
  proof
    assume "snd ?plain = Inr ()"
    with 1 have ok: "snd ?r = Inr ()" by simp
    from dispatch_success_workflow [OF ok] obtain w where
      w: "fst ?r = wd\<lparr>backend_calls := backend_calls wd @
                    [ReadServiceAccountToken ''default'' (kubernetes_namespace self),
                     CreateWorkflow w],
                  logged := (if schedule rc \<noteq> None
                        then (logged wd @ map resources_warning
                                (filter (requires_resources_in_orchestration_environment e) sorted_steps))
                             @ [schedule_warning]
                        else logged wd @ map resources_warning
                                (filter (requires_resources_in_orchestration_environment e) sorted_steps))
                       @ [running_info self]\<rparr>"
      and t: "tasks w = map ?mk sorted_steps"
      and d: "edge_names (dependencies w) = ?rel"
      by blast
    have rw: "resources_warning = ?rw" by (rule ext) (simp add: resources_warning_def)
    have a1: "backend_calls (fst ?r) = backend_calls wd @
                   [ReadServiceAccountToken ''default'' (kubernetes_namespace self),
                    CreateWorkflow w]"
      unfolding w by simp
    have a3: "map (\<lambda>(a, b). (task_name a, task_name b)) (dependencies w) = ?rel"
      using d by (simp add: edge_names_def)
    have a: "\<exists>w. backend_calls (fst ?r) = backend_calls wd @
                   [ReadServiceAccountToken ''default'' (kubernetes_namespace self),
                    CreateWorkflow w]
               \<and> tasks w = map ?mk sorted_steps
               \<and> map (\<lambda>(a, b). (task_name a, task_name b)) (dependencies w) = ?rel"
      by (rule exI [of _ w]) (intro conjI a1 t a3)
    have l: "logged (fst ?r) = logged wd
              @ map ?rw (filter (requires_resources_in_orchestration_environment e) sorted_steps)
              @ (if schedule rc \<noteq> None then [?sw] else []) @ [?info]"
      unfolding w rw by (simp add: schedule_warning_def running_info_def del: not_None_eq)
    have b: "schedule rc \<noteq> None \<longrightarrow> ?sw \<in> set (logged (fst ?r))"
      unfolding l by simp
    have c: "\<forall>s \<in> set sorted_steps. requires_resources_in_orchestration_environment e s \<longrightarrow>
             ?rw s \<in> set (logged (fst ?r))"
      unfolding l by simp
    from ok a l b c show "snd ?r = Inr ()
        \<and> (\<exists>w. backend_calls (fst ?r) = backend_calls wd @
                   [ReadServiceAccountToken ''default'' (kubernetes_namespace self),
                    CreateWorkflow w]
               \<and> tasks w = map ?mk sorted_steps
               \<and> map (\<lambda>(a, b). (task_name a, task_name b)) (dependencies w) = ?rel)
        \<and> logged (fst ?r) = logged wd
              @ map ?rw (filter (requires_resources_in_orchestration_environment e) sorted_steps)
              @ (if schedule rc \<noteq> None then [?sw] else []) @ [?info]
        \<and> (schedule rc \<noteq> None \<longrightarrow> ?sw \<in> set (logged (fst ?r)))
        \<and> (\<forall>s \<in> set sorted_steps. requires_resources_in_orchestration_environment e s \<longrightarrow>
             ?rw s \<in> set (logged (fst ?r)))"
      by (intro conjI)
  qed
  from 1 2 3 show ?thesis by (intro conjI)
qed

theorem unsupported_features_not_fatal_witness:
  "snd (prepare_or_run_pipeline ex_self
          (ex_env\<lparr>requires_resources_in_orchestration_environment := (\<lambda>s. False)\<rparr>)
          [step_A, step_B, step_C] ex_pipeline ex_pb2 ex_stack
          (scheduled_rc\<lparr>schedule := None\<rparr>) ex_world) = Inr ()
   \<and> schedule scheduled_rc \<noteq> None
   \<and> step_B \<in> set [step_A, step_B, step_C]
   \<and> requires_resources_in_orchestration_environment ex_env step_B
   \<and> snd (prepare_or_run_pipeline ex_self ex_env [step_A, step_B, step_C] ex_pipeline ex_pb2
            ex_stack scheduled_rc ex_world) = Inr ()
   \<and> (\<exists>w. backend_calls (fst (prepare_or_run_pipeline ex_self ex_env [step_A, step_B, step_C]
                                 ex_pipeline ex_pb2 ex_stack scheduled_rc ex_world))
            = [ReadServiceAccountToken ''default'' ''argo'', CreateWorkflow w]
          \<and> map task_name (tasks w) = [''A'', ''B'', ''C''])
   \<and> logged (fst (prepare_or_run_pipeline ex_self ex_env [step_A, step_B, step_C]
                     ex_pipeline ex_pb2 ex_stack scheduled_rc ex_world))
       = [Warning (''Specifying step resources is not yet supported for '' @
                   ''the Airflow orchestrator, ignoring resource '' @
                   ''configuration for step %s.'') [Str ''B''],
          Warning (''The Argo Orchestrator currently does not support the '' @
                   ''use of schedules. The `schedule` will be ignored '' @
                   ''and the pipeline will be run immediately.'') [],
          Info (''Running Argo pipeline in kubernetes context '' @ [CHR 0x27] @ ''%s'' @
                [CHR 0x27] @ '' and namespace '' @ [CHR 0x27] @ ''%s'' @ [CHR 0x27] @ ''.'')
               [Str ''minikube'', Str ''argo'']]"
proof -
  let ?r = "prepare_or_run_pipeline ex_self ex_env [step_A, step_B, step_C] ex_pipeline ex_pb2
            ex_stack scheduled_rc ex_world"
  have a: "schedule scheduled_rc \<noteq> None" by (simp add: scheduled_rc_def)
  have b: "step_B \<in> set [step_A, step_B, step_C]" by simp
  have c: "requires_resources_in_orchestration_environment ex_env step_B"
    by (simp add: ex_env_def step_B_def no_resources_def)
  have f: "filter (requires_resources_in_orchestration_environment ex_env) [step_A, step_B, step_C]
           = [step_B]"
    by (simp add: ex_env_def step_A_def step_B_def step_C_def no_resources_def)
  have n: "name step_B = ''B''" "map name [step_A, step_B, step_C] = [''A'', ''B'', ''C'']"
    by (simp_all add: step_A_def step_B_def step_C_def)
  have k: "kubernetes_context ex_self = ''minikube''" "kubernetes_namespace ex_self = ''argo''"
    by (simp_all add: ex_self_def)
  have l: "logged ex_world = []" "backend_calls ex_world = []" by (simp_all add: ex_world_def)
  note t = unsupported_features_not_fatal [of ex_self ex_env "[step_A, step_B, step_C]"
      ex_pipeline ex_pb2 ex_stack scheduled_rc ex_world]
  from t ex_plain_run have ok: "snd ?r = Inr ()" by blast
  from t ex_plain_run obtain w where
    w: "backend_calls (fst ?r) = backend_calls ex_world @
          [ReadServiceAccountToken ''default'' (kubernetes_namespace ex_self), CreateWorkflow w]"
    and tw: "tasks w = map (\<lambda>s. \<lparr>task_name = name s, func = ''dummy'',
                              image = the (docker_image scheduled_rc),
                              command = get_entrypoint_command ex_env,
                              args = get_entrypoint_arguments ex_env s ex_pb2\<rparr>)
                         [step_A, step_B, step_C]"
    by blast
  have w1: "backend_calls (fst ?r) = [ReadServiceAccountToken ''default'' ''argo'', CreateWorkflow w]"
    using w by (simp add: k l)
  have w2: "map task_name (tasks w) = [''A'', ''B'', ''C'']"
    unfolding tw using n by simp
  have e: "\<exists>w. backend_calls (fst ?r)
            = [ReadServiceAccountToken ''default'' ''argo'', CreateWorkflow w]
          \<and> map task_name (tasks w) = [''A'', ''B'', ''C'']"
    by (rule exI [of _ w]) (intro conjI w1 w2)
  from t ex_plain_run have "logged (fst ?r) = logged ex_world
              @ map (\<lambda>s. Warning (''Specifying step resources is not yet supported for '' @
                                   ''the Airflow orchestrator, ignoring resource '' @
                                   ''configuration for step %s.'') [Str (name s)])
                    (filter (requires_resources_in_orchestration_environment ex_env)
                       [step_A, step_B, step_C])
              @ (if schedule scheduled_rc \<noteq> None
                 then [Warning (''The Argo Orchestrator currently does not support the '' @
                                ''use of schedules. The `schedule` will be ignored '' @
                                ''and the pipeline will be run immediately.'') []]
                 else [])
              @ [Info (''Running Argo pipeline in kubernetes context '' @ [CHR 0x27] @ ''%s'' @
                       [CHR 0x27] @ '' and namespace '' @ [CHR 0x27] @ ''%s'' @ [CHR 0x27] @ ''.'')
                      [Str (kubernetes_context ex_self), Str (kubernetes_namespace ex_self)]]"
    by blast
  then have lg: "logged (fst ?r)
       = [Warning (''Specifying step resources is not yet supported for '' @
                   ''the Airflow orchestrator, ignoring resource '' @
                   ''configuration for step %s.'') [Str ''B''],
          Warning (''The Argo Orchestrator currently does not support the '' @
                   ''use of schedules. The `schedule` will be ignored '' @
                   ''and the pipeline will be run immediately.'') [],
          Info (''Running Argo pipeline in kubernetes context '' @ [CHR 0x27] @ ''%s'' @
                [CHR 0x27] @ '' and namespace '' @ [CHR 0x27] @ ''%s'' @ [CHR 0x27] @ ''.'')
               [Str ''minikube'', Str ''argo'']]"
    unfolding f using a by (simp add: n k l)
  show ?thesis by (intro conjI ex_plain_run a b c ok e lg)
qed

text \<open>
  C4. The claim is not met by the code. The method wraps a failed submission in a
  \<^verbatim>\<open>RuntimeError\<close> that names the Kubernetes context and the probable cause, but its
  \<^verbatim>\<open>except\<close> clause catches \<^verbatim>\<open>subprocess.CalledProcessError\<close> around a call that talks to the
  Argo server over HTTPS. When the server refuses the connection, the exception of the
  client reaches the caller as it is, and the Kubernetes context is not in it.
\<close>

theorem connection_failure_not_wrapped:
  "snd (prepare_or_run_pipeline ex_self (failing_env (ExternalError ''Connection refused''))
          [step_A, step_B, step_C] ex_pipeline ex_pb2 ex_stack ex_rc ex_world)
     = Inl (ExternalError ''Connection refused'')
   \<and> \<not> sublist (kubernetes_context ex_self) ''Connection refused''"
  by (simp add: prepare_or_run_pipeline_def get_sa_token_def submit_def truthy_def Let_def
      failing_env_def ex_env_def ex_rc_def ex_self_def ex_pb2_def step_A_def step_B_def step_C_def
      sublist_Cons_right)

text \<open>
  The path the \<^verbatim>\<open>except\<close> clause covers. A dispatch that reaches the submission creates the
  workflow with one call, the last backend call; the world is otherwise the one before the
  dispatch, apart from the log (nothing is cleaned up). If the call raises nothing the
  dispatch succeeds; if it raises, the dispatch raises; if it raises
  \<^verbatim>\<open>CalledProcessError\<close>, the dispatch raises a \<^verbatim>\<open>RuntimeError\<close> whose message contains the
  Kubernetes context and the text of the cause.
\<close>

lemma submission_failure_surfaced:
  assumes "\<not> in_notebook e" and "docker_image rc = Some image_name"
    and "truthy (run_name rc)"
    and "read_token e None ''default'' (kubernetes_namespace self) = Inr tok"
    and "\<forall>i<length sorted_steps.
             set (get_upstream_step_names e (sorted_steps ! i) pb2)
               \<subseteq> name ` set (take (Suc i) sorted_steps)"
  shows "\<exists>w. fst (prepare_or_run_pipeline self e sorted_steps pipeline pb2 stk rc wd)
            = wd\<lparr>backend_calls := backend_calls wd @
                    [ReadServiceAccountToken ''default'' (kubernetes_namespace self),
                     CreateWorkflow w],
                  logged := logged (fst (prepare_or_run_pipeline self e sorted_steps pipeline
                                           pb2 stk rc wd))\<rparr>
     \<and> (create e w = None \<longrightarrow>
          snd (prepare_or_run_pipeline self e sorted_steps pipeline pb2 stk rc wd) = Inr ())
     \<and> (create e w \<noteq> None \<longrightarrow>
          isl (snd (prepare_or_run_pipeline self e sorted_steps pipeline pb2 stk rc wd)))
     \<and> (\<forall>m. create e w = Some (CalledProcessError m) \<longrightarrow>
          snd (prepare_or_run_pipeline self e sorted_steps pipeline pb2 stk rc wd)
            = Inl (RuntimeError (upload_failure_message self m))
          \<and> sublist (kubernetes_context self) (upload_failure_message self m)
          \<and> sublist m (upload_failure_message self m))"
proof -
  let ?r = "prepare_or_run_pipeline self e sorted_steps pipeline pb2 stk rc wd"
  from assms(5) have "lookups_defined e pb2 {} sorted_steps"
    unfolding lookups_defined_iff by simp
  from dispatch_submits [OF assms(1-4) this, of pipeline stk wd] obtain w where
    r: "?r = submit self e w
         (wd\<lparr>backend_calls := backend_calls wd @
                 [ReadServiceAccountToken ''default'' (kubernetes_namespace self)],
             logged := (if schedule rc \<noteq> None
                        then (logged wd @ map resources_warning
                                (filter (requires_resources_in_orchestration_environment e) sorted_steps))
                             @ [schedule_warning]
                        else logged wd @ map resources_warning
                                (filter (requires_resources_in_orchestration_environment e) sorted_steps))
                       @ [running_info self]\<rparr>)"
    by blast
  have 1: "fst ?r = wd\<lparr>backend_calls := backend_calls wd @
                    [ReadServiceAccountToken ''default'' (kubernetes_namespace self),
                     CreateWorkflow w],
                  logged := logged (fst ?r)\<rparr>"
    unfolding r submit_frame by simp
  have s: "snd ?r = (case create e w of None \<Rightarrow> Inr ()
      | Some (CalledProcessError m) \<Rightarrow> Inl (RuntimeError (upload_failure_message self m))
      | Some other \<Rightarrow> Inl other)"
    unfolding r submit_result ..
  have 2: "create e w = None \<longrightarrow> snd ?r = Inr ()" unfolding s by simp
  have 3: "create e w \<noteq> None \<longrightarrow> isl (snd ?r)"
    unfolding s by (auto split: error.splits)
  have 4: "\<forall>m. create e w = Some (CalledProcessError m) \<longrightarrow>
          snd ?r = Inl (RuntimeError (upload_failure_message self m))
          \<and> sublist (kubernetes_context self) (upload_failure_message self m)
          \<and> sublist m (upload_failure_message self m)"
    unfolding s using context_in_message [of self] by simp
  show ?thesis by (rule exI [of _ w]) (intro conjI 1 2 3 4)
qed

lemma submission_failure_surfaced_witness:
  "snd (prepare_or_run_pipeline ex_self (failing_env (CalledProcessError ''exit status 1''))
          [step_A, step_B, step_C] ex_pipeline ex_pb2 ex_stack ex_rc ex_world)
     = Inl (RuntimeError (upload_failure_message ex_self ''exit status 1''))
   \<and> sublist ''minikube'' (upload_failure_message ex_self ''exit status 1'')"
proof -
  let ?e = "failing_env (CalledProcessError ''exit status 1'')"
  have h1: "\<not> in_notebook ?e" by (simp add: failing_env_def ex_env_def)
  have h2: "docker_image ex_rc = Some ''registry.example/zenml:training''"
    by (simp add: ex_rc_def)
  have h3: "truthy (run_name ex_rc)" by (simp add: ex_rc_def truthy_def)
  have h4: "read_token ?e None ''default'' (kubernetes_namespace ex_self) = Inr ''secret-token''"
    by (simp add: failing_env_def ex_env_def)
  have h5: "\<forall>i<length [step_A, step_B, step_C].
             set (get_upstream_step_names ?e ([step_A, step_B, step_C] ! i) ex_pb2)
               \<subseteq> name ` set (take (Suc i) [step_A, step_B, step_C])"
    using ex_hyp_le by (simp add: failing_env_def)
  have c: "\<And>w. create ?e w = Some (CalledProcessError ''exit status 1'')"
    by (simp add: failing_env_def)
  have k: "kubernetes_context ex_self = ''minikube''" by (simp add: ex_self_def)
  from submission_failure_surfaced [OF h1 h2 h3 h4 h5, of ex_pipeline ex_stack ex_world] c k
  show ?thesis by auto
qed

text \<open>
  C10, as stated, fails: the step's own task is stored in the dictionary before its
  upstream names are looked up, so a step that names itself as upstream does not precede
  itself and yet its lookup succeeds.
\<close>

theorem self_upstream_is_looked_up:
  "\<not> set (get_upstream_step_names ex_env ([step_A] ! 0) self_pb2) \<subseteq> name ` set (take 0 [step_A])
   \<and> snd (prepare_or_run_pipeline ex_self ex_env [step_A] ex_pipeline self_pb2 ex_stack ex_rc
            ex_world) = Inr ()"
  by (simp add: prepare_or_run_pipeline_def get_sa_token_def submit_def truthy_def Let_def
      ex_env_def ex_rc_def ex_self_def self_pb2_def step_A_def)

text \<open>
  C10, amended. For a dispatch that reaches the loop: if every upstream name of every step
  is the name of that step or of a step before it in \<^verbatim>\<open>sorted_steps\<close>, every lookup
  succeeds and the workflow is submitted; otherwise the dispatch raises \<^verbatim>\<open>KeyError\<close> for an
  upstream name that is neither, and the workflow is not submitted.
\<close>

theorem upstream_lookups:
  assumes "\<not> in_notebook e" and "docker_image rc = Some image_name"
    and "truthy (run_name rc)"
    and "read_token e None ''default'' (kubernetes_namespace self) = Inr tok"
  shows "((\<forall>i<length sorted_steps.
             set (get_upstream_step_names e (sorted_steps ! i) pb2)
               \<subseteq> name ` set (take (Suc i) sorted_steps))
          \<longrightarrow> (\<exists>w. backend_calls
                     (fst (prepare_or_run_pipeline self e sorted_steps pipeline pb2 stk rc wd))
                   = backend_calls wd @
                     [ReadServiceAccountToken ''default'' (kubernetes_namespace self),
                      CreateWorkflow w]))
       \<and> (\<not> (\<forall>i<length sorted_steps.
               set (get_upstream_step_names e (sorted_steps ! i) pb2)
                 \<subseteq> name ` set (take (Suc i) sorted_steps))
          \<longrightarrow> (\<exists>u i. snd (prepare_or_run_pipeline self e sorted_steps pipeline pb2 stk rc wd)
                         = Inl (KeyError u)
                   \<and> i < length sorted_steps
                   \<and> u \<in> set (get_upstream_step_names e (sorted_steps ! i) pb2)
                   \<and> u \<notin> name ` set (take (Suc i) sorted_steps)
                   \<and> backend_calls
                       (fst (prepare_or_run_pipeline self e sorted_steps pipeline pb2 stk rc wd))
                     = backend_calls wd @
                       [ReadServiceAccountToken ''default'' (kubernetes_namespace self)]))"
proof (intro conjI impI)
  assume "\<forall>i<length sorted_steps.
             set (get_upstream_step_names e (sorted_steps ! i) pb2)
               \<subseteq> name ` set (take (Suc i) sorted_steps)"
  then have "lookups_defined e pb2 {} sorted_steps"
    unfolding lookups_defined_iff by simp
  from dispatch_submits [OF assms this, of pipeline stk wd] obtain w where
    r: "prepare_or_run_pipeline self e sorted_steps pipeline pb2 stk rc wd =
       submit self e w
         (wd\<lparr>backend_calls := backend_calls wd @
                 [ReadServiceAccountToken ''default'' (kubernetes_namespace self)],
             logged := (if schedule rc \<noteq> None
                        then (logged wd @ map resources_warning
                                (filter (requires_resources_in_orchestration_environment e) sorted_steps))
                             @ [schedule_warning]
                        else logged wd @ map resources_warning
                                (filter (requires_resources_in_orchestration_environment e) sorted_steps))
                       @ [running_info self]\<rparr>)"
    by blast
  have "backend_calls (fst (prepare_or_run_pipeline self e sorted_steps pipeline pb2 stk rc wd))
             = backend_calls wd @
               [ReadServiceAccountToken ''default'' (kubernetes_namespace self), CreateWorkflow w]"
    unfolding r submit_calls by simp
  then show "\<exists>w. backend_calls
                     (fst (prepare_or_run_pipeline self e sorted_steps pipeline pb2 stk rc wd))
                   = backend_calls wd @
                     [ReadServiceAccountToken ''default'' (kubernetes_namespace self),
                      CreateWorkflow w]" ..
next
  assume "\<not> (\<forall>i<length sorted_steps.
               set (get_upstream_step_names e (sorted_steps ! i) pb2)
                 \<subseteq> name ` set (take (Suc i) sorted_steps))"
  then have "\<not> lookups_defined e pb2 {} sorted_steps"
    unfolding lookups_defined_iff by simp
  from dispatch_missing_key [OF assms this, of pipeline stk wd] obtain lg u i where
    r: "prepare_or_run_pipeline self e sorted_steps pipeline pb2 stk rc wd =
       (wd\<lparr>backend_calls := backend_calls wd @
                 [ReadServiceAccountToken ''default'' (kubernetes_namespace self)],
           logged := lg\<rparr>, Inl (KeyError u))"
    and b: "i < length sorted_steps" "u \<in> set (get_upstream_step_names e (sorted_steps ! i) pb2)"
      "u \<notin> name ` set (take (Suc i) sorted_steps)"
    by blast
  have 1: "snd (prepare_or_run_pipeline self e sorted_steps pipeline pb2 stk rc wd)
          = Inl (KeyError u)" unfolding r by simp
  have 2: "backend_calls
             (fst (prepare_or_run_pipeline self e sorted_steps pipeline pb2 stk rc wd))
           = backend_calls wd @
             [ReadServiceAccountToken ''default'' (kubernetes_namespace self)]"
    unfolding r by simp
  show "\<exists>u i. snd (prepare_or_run_pipeline self e sorted_steps pipeline pb2 stk rc wd)
                         = Inl (KeyError u)
                   \<and> i < length sorted_steps
                   \<and> u \<in> set (get_upstream_step_names e (sorted_steps ! i) pb2)
                   \<and> u \<notin> name ` set (take (Suc i) sorted_steps)
                   \<and> backend_calls
                       (fst (prepare_or_run_pipeline self e sorted_steps pipeline pb2 stk rc wd))
                     = backend_calls wd @
                       [ReadServiceAccountToken ''default'' (kubernetes_namespace self)]"
    by (rule exI [of _ u], rule exI [of _ i]) (intro conjI 1 b 2)
qed

theorem upstream_lookups_witness:
  "(\<exists>w. backend_calls (fst (prepare_or_run_pipeline ex_self ex_env [step_A, step_B, step_C]
                               ex_pipeline ex_pb2 ex_stack ex_rc ex_world))
          = backend_calls ex_world @
            [ReadServiceAccountToken ''default'' (kubernetes_namespace ex_self), CreateWorkflow w])
   \<and> (\<exists>u i. snd (prepare_or_run_pipeline ex_self ex_env [step_B, step_A]
                    ex_pipeline ex_pb2 ex_stack ex_rc ex_world) = Inl (KeyError u)
          \<and> i < length [step_B, step_A]
          \<and> u \<in> set (get_upstream_step_names ex_env ([step_B, step_A] ! i) ex_pb2)
          \<and> u \<notin> name ` set (take (Suc i) [step_B, step_A])
          \<and> backend_calls (fst (prepare_or_run_pipeline ex_self ex_env [step_B, step_A]
                                  ex_pipeline ex_pb2 ex_stack ex_rc ex_world))
            = backend_calls ex_world @
              [ReadServiceAccountToken ''default'' (kubernetes_namespace ex_self)])"
  using upstream_lookups [OF ex_pre, of "[step_A, step_B, step_C]" ex_pb2 ex_pipeline ex_stack ex_world]
    upstream_lookups [OF ex_pre, of "[step_B, step_A]" ex_pb2 ex_pipeline ex_stack ex_world]
    ex_hyp_le ex_hyp_violated
  by blast

subsection \<open>Stack validation\<close>

lemma validate_validator:
  "validate (validator self e) stk =
     (case container_registry stk of
        None \<Rightarrow> Inr (False, ''container_registry'')
      | Some registry \<Rightarrow>
          if kubernetes_context self \<in> set (fst (get_kubernetes_contexts e))
          then Inr (True, [])
          else Inr (False, context_not_found_message self))"
  by (simp add: validate_def validator_def argo_validate_def component_of_def type_value_def
      split: option.splits)

lemma context_not_found_names:
  "sublist (kubernetes_context self) (context_not_found_message self)
   \<and> sublist ''kubectl config get-contexts'' (context_not_found_message self)"
proof
  show "sublist (kubernetes_context self) (context_not_found_message self)"
    unfolding context_not_found_message_def sublist_def
    by (rule exI [of _ "''Could not find a Kubernetes context named '' @ [CHR 0x27]"],
        rule exI [of _ "[CHR 0x27] @ '' in the local Kubernetes '' @
     ''configuration. Please make sure that the Kubernetes '' @
     ''cluster is running and that the kubeconfig file is '' @
     ''configured correctly. To list all configured '' @
     ''contexts, run:'' @ [CHR 0x0A, CHR 0x0A] @
     ''  `kubectl config get-contexts`'' @ [CHR 0x0A]"]) simp
  show "sublist ''kubectl config get-contexts'' (context_not_found_message self)"
    unfolding context_not_found_message_def sublist_def
    by (rule exI [of _ "''Could not find a Kubernetes context named '' @
     [CHR 0x27] @ kubernetes_context self @ [CHR 0x27] @ '' in the local Kubernetes '' @
     ''configuration. Please make sure that the Kubernetes '' @
     ''cluster is running and that the kubeconfig file is '' @
     ''configured correctly. To list all configured '' @
     ''contexts, run:'' @ [CHR 0x0A, CHR 0x0A] @ ''  `''"],
        rule exI [of _ "''`'' @ [CHR 0x0A]"]) simp
qed

text \<open>
  C5. The claim is not met by the code. The docstring of \<^verbatim>\<open>validator\<close> promises a stack with
  only remote components, and the comment in \<^verbatim>\<open>_validate\<close> describes the check, but the
  check is commented out: for a stack whose container registry is local, with the
  Kubernetes context configured, the validator accepts the stack with an empty message.
\<close>

theorem local_registry_accepted:
  "container_registry ex_stack
     = Some \<lparr>component_name = ''local_registry'', flavor = ''default'', is_local = True\<rparr>
   \<and> validate (validator ex_self ex_env) ex_stack = Inr (True, [])"
  by (simp add: validate_validator ex_stack_def ex_self_def ex_env_def get_kubernetes_contexts_def)

text \<open>
  The verdict as the code computes it. For a stack with a container registry the verdict
  is decided by the Kubernetes context alone: accepted with an empty message when
  \<^verbatim>\<open>kubernetes_context\<close> is among the configured contexts, rejected otherwise with a
  message that names the context and the command that lists the contexts. Whether the
  registry is local changes nothing.
\<close>

lemma validator_ignores_is_local:
  assumes "container_registry stk = Some registry"
  shows "validate (validator self e) stk =
           (if kubernetes_context self \<in> set (fst (get_kubernetes_contexts e))
            then Inr (True, [])
            else Inr (False, context_not_found_message self))
     \<and> validate (validator self e) (stk\<lparr>container_registry := Some (registry\<lparr>is_local := b\<rparr>)\<rparr>)
         = validate (validator self e) stk
     \<and> sublist (kubernetes_context self) (context_not_found_message self)
     \<and> sublist ''kubectl config get-contexts'' (context_not_found_message self)"
  using assms context_not_found_names [of self] by (simp add: validate_validator)

lemma validator_ignores_is_local_witness:
  "validate (validator ex_self ex_env) ex_stack = Inr (True, [])
   \<and> validate (validator ex_self ex_env) remote_stack = Inr (True, [])
   \<and> validate (validator ex_self (ex_env\<lparr>kube_config := None\<rparr>)) ex_stack
       = Inr (False, context_not_found_message ex_self)"
proof -
  have a: "container_registry ex_stack
     = Some \<lparr>component_name = ''local_registry'', flavor = ''default'', is_local = True\<rparr>"
    by (simp add: ex_stack_def)
  have b: "container_registry remote_stack
     = Some \<lparr>component_name = ''ecr'', flavor = ''aws'', is_local = False\<rparr>"
    by (simp add: remote_stack_def)
  have c: "kubernetes_context ex_self \<in> set (fst (get_kubernetes_contexts ex_env))"
    by (simp add: ex_self_def ex_env_def get_kubernetes_contexts_def)
  have d: "kubernetes_context ex_self
            \<notin> set (fst (get_kubernetes_contexts (ex_env\<lparr>kube_config := None\<rparr>)))"
    by (simp add: get_kubernetes_contexts_def)
  from validator_ignores_is_local [OF a, of ex_self ex_env]
    validator_ignores_is_local [OF b, of ex_self ex_env]
    validator_ignores_is_local [OF a, of ex_self "ex_env\<lparr>kube_config := None\<rparr>"] c d
  show ?thesis by simp
qed

text \<open>
  C6, as stated, fails: the same orchestrator validates the same stack under two local
  Kubernetes configurations and returns two verdicts.
\<close>

theorem verdict_changes_with_kube_config:
  "validate (validator ex_self ex_env) ex_stack
   \<noteq> validate (validator ex_self (ex_env\<lparr>kube_config := None\<rparr>)) ex_stack"
  by (simp add: validate_validator ex_stack_def ex_self_def ex_env_def get_kubernetes_contexts_def)

text \<open>
  C6, amended. The verdict is a function of three things: whether the stack has a
  container registry, the \<^verbatim>\<open>kubernetes_context\<close> of the orchestrator, and the context names
  of the local Kubernetes configuration. Nothing else of the stack, of the orchestrator or
  of its surroundings is read; \<open>validate\<close> takes no world and returns the verdict only, so
  it calls no backend and changes no stack.
\<close>

theorem verdict_determined:
  assumes "fst (get_kubernetes_contexts e) = fst (get_kubernetes_contexts e')"
    and "kubernetes_context self = kubernetes_context self'"
    and "(container_registry stk = None) = (container_registry stk' = None)"
  shows "validate (validator self e) stk = validate (validator self' e') stk'"
  using assms
  by (auto simp add: validate_validator context_not_found_message_def split: option.splits)

theorem verdict_determined_witness:
  "fst (get_kubernetes_contexts ex_env) = fst (get_kubernetes_contexts other_env)
   \<and> kubernetes_context ex_self = kubernetes_context (ex_self\<lparr>argo_ui_port := 8080\<rparr>)
   \<and> (container_registry ex_stack = None) = (container_registry remote_stack = None)
   \<and> validate (validator ex_self ex_env) ex_stack
       = validate (validator (ex_self\<lparr>argo_ui_port := 8080\<rparr>) other_env) remote_stack"
proof -
  have a: "fst (get_kubernetes_contexts ex_env) = fst (get_kubernetes_contexts other_env)"
    by (simp add: get_kubernetes_contexts_def ex_env_def other_env_def)
  have b: "kubernetes_context ex_self = kubernetes_context (ex_self\<lparr>argo_ui_port := 8080\<rparr>)"
    by simp
  have c: "(container_registry ex_stack = None) = (container_registry remote_stack = None)"
    by (simp add: ex_stack_def remote_stack_def)
  from verdict_determined [OF a b c] a b c show ?thesis by simp
qed

subsection \<open>Lifecycle\<close>

lemma paths_distinct:
  "pid_file_path self e \<noteq> log_file self e"
  "log_file self e \<noteq> pid_file_path self e"
  "root_directory self e \<noteq> log_file self e"
  "root_directory self e \<noteq> pid_file_path self e"
  "log_file self e \<noteq> root_directory self e"
  "pid_file_path self e \<noteq> root_directory self e"
  by (simp_all add: pid_file_path_def log_file_def)

text \<open>
  C7, as stated, fails: with \<^verbatim>\<open>skip_ui_daemon_provisioning\<close> set, the process recorded in
  the PID file is not alive and \<^verbatim>\<open>is_running\<close> is true.
\<close>

theorem skipped_daemon_reported_running:
  "fs crashed_world (pid_file_path skipping_self ex_env) = Some (PidRecord 4242)
   \<and> 4242 \<notin> alive crashed_world
   \<and> \<not> check_if_daemon_is_running crashed_world (pid_file_path skipping_self ex_env)
   \<and> is_running skipping_self ex_env crashed_world"
  by (simp add: is_running_def check_if_daemon_is_running_def skipping_self_def crashed_world_def
      ex_world_def pid_file_path_def log_file_def root_directory_def)

text \<open>
  C7, amended. When \<^verbatim>\<open>skip_ui_daemon_provisioning\<close> is off and the platform is not win32,
  \<^verbatim>\<open>is_running\<close> is what \<^verbatim>\<open>check_if_daemon_is_running\<close> finds for the PID file in the
  present world: with a PID file, whether the recorded process is alive; without one,
  false. When the flag is set or the platform is win32, \<^verbatim>\<open>is_running\<close> is true whatever
  the world.
\<close>

theorem is_running_observes_daemon:
  "(\<not> skip_ui_daemon_provisioning self \<and> platform e \<noteq> ''win32'' \<longrightarrow>
      is_running self e wd = check_if_daemon_is_running wd (pid_file_path self e)
      \<and> (\<forall>p. fs wd (pid_file_path self e) = Some (PidRecord p) \<longrightarrow>
             is_running self e wd = (p \<in> alive wd))
      \<and> (fs wd (pid_file_path self e) = None \<longrightarrow> \<not> is_running self e wd))
   \<and> (skip_ui_daemon_provisioning self \<or> platform e = ''win32'' \<longrightarrow> is_running self e wd)"
  by (simp add: is_running_def check_if_daemon_is_running_def)

theorem is_running_observes_daemon_witness:
  "\<not> skip_ui_daemon_provisioning ex_self \<and> platform ex_env \<noteq> ''win32''
   \<and> fs crashed_world (pid_file_path ex_self ex_env) = Some (PidRecord 4242)
   \<and> \<not> is_running ex_self ex_env crashed_world
   \<and> is_running ex_self ex_env running_world
   \<and> skip_ui_daemon_provisioning skipping_self
   \<and> is_running skipping_self ex_env crashed_world"
proof -
  have a: "\<not> skip_ui_daemon_provisioning ex_self \<and> platform ex_env \<noteq> ''win32''"
    by (simp add: ex_self_def ex_env_def)
  have b: "fs crashed_world (pid_file_path ex_self ex_env) = Some (PidRecord 4242)"
    "fs running_world (pid_file_path ex_self ex_env) = Some (PidRecord 4242)"
    by (simp_all add: crashed_world_def running_world_def paths_distinct)
  have c: "4242 \<notin> alive crashed_world" "4242 \<in> alive running_world"
    by (simp_all add: crashed_world_def running_world_def)
  have d: "skip_ui_daemon_provisioning skipping_self" by (simp add: skipping_self_def)
  from is_running_observes_daemon [of ex_self ex_env crashed_world]
    is_running_observes_daemon [of ex_self ex_env running_world]
    is_running_observes_daemon [of skipping_self ex_env crashed_world] a b c d
  show ?thesis by blast
qed











text \<open>
  C9. When the requested UI port is bound, \<^verbatim>\<open>start_ui_daemon\<close> returns normally, with one of
  three outcomes. The port it goes on with is the one \<^verbatim>\<open>find_available_port\<close> returns if
  the requested port is the default 2746, and the requested port otherwise. If that port
  is bound, the world is unchanged but for one warning, whose arguments are the port and
  the command \<^verbatim>\<open>kubectl --context ... --namespace ... port-forward svc/argo-server <PORT>:2746\<close>
  to run by hand; no daemon is started. If it is free, on win32 a warning with the command
  for that port is logged, and elsewhere the daemon is started with the command for that
  port. In each case the result is a world and not an exception: the one statement of the
  method that can raise, the assignment to the last element of the command, finds a list
  of eight elements.
\<close>

theorem start_ui_daemon_port_occupied:
  assumes "\<not> port_available wd (argo_ui_port self)"
  shows "chosen_port self e wd =
           (if argo_ui_port self = 2746 then find_available_port e else argo_ui_port self)
     \<and> (\<not> port_available wd (chosen_port self e wd) \<longrightarrow>
          start_ui_daemon self e wd = Inr
            (wd\<lparr>logged := logged wd @
              [Warning (''Unable to port-forward Argo UI to local port %d '' @
                        ''because the port is occupied. In order to access the Argo '' @
                        ''UI at http://localhost:<PORT>/, please run '' @ [CHR 0x27] @ ''%s'' @
                        [CHR 0x27] @ '' in a '' @
                        ''separate command line shell (replace <PORT> with a free port '' @
                        ''of your choice).'')
                 [Num (chosen_port self e wd),
                  Str (''kubectl --context '' @ kubernetes_context self @
                       '' --namespace '' @ kubernetes_namespace self @
                       '' port-forward svc/argo-server <PORT>:2746'')]]\<rparr>))
     \<and> (port_available wd (chosen_port self e wd) \<and> platform e = ''win32'' \<longrightarrow>
          start_ui_daemon self e wd = Inr
            (wd\<lparr>logged := logged wd @
              [Warning (''Daemon functionality not supported on Windows. '' @
                        ''In order to access the Argo UI at '' @
                        ''http://localhost:%d/, please run '' @ [CHR 0x27] @ ''%s'' @
                        [CHR 0x27] @ '' in a separate command '' @ ''line shell.'')
                 [Num (chosen_port self e wd),
                  Str (''kubectl --context '' @ kubernetes_context self @
                       '' --namespace '' @ kubernetes_namespace self @
                       '' port-forward svc/argo-server '' @
                       str_nat (chosen_port self e wd) @ '':2746'')]]\<rparr>))
     \<and> (port_available wd (chosen_port self e wd) \<and> platform e \<noteq> ''win32'' \<longrightarrow>
          start_ui_daemon self e wd = Inr
            (wd\<lparr>fs := (fs wd)(pid_file_path self e \<mapsto> PidRecord (new_pid e),
                             log_file self e \<mapsto> Regular),
               alive := insert (new_pid e) (alive wd),
               daemons := daemons wd @
                  [(new_pid e,
                    [''kubectl'', ''--context'', kubernetes_context self,
                     ''--namespace'', kubernetes_namespace self,
                     ''port-forward'', ''svc/argo-server'',
                     str_nat (chosen_port self e wd) @ '':2746''])],
               logged := logged wd @
                 [Info (''Started Argo UI daemon (check the daemon logs at %s '' @
                        ''in case you'' @ [CHR 0x27] @ ''re not able to view the UI). The Argo '' @
                        ''UI should now be accessible at http://localhost:%d/.'')
                    [Str (join ''/'' (log_file self e)), Num (chosen_port self e wd)]]\<rparr>))
     \<and> (\<exists>wd'. start_ui_daemon self e wd = Inr wd')"
  using assms
  by (simp add: start_ui_daemon_def chosen_port_def Let_def port_forward_command_def
      run_as_daemon_def occupied_warning_def windows_warning_def started_info_def
      DEFAULT_ARGO_UI_PORT_def set_last_def)

theorem start_ui_daemon_port_occupied_witness:
  "\<not> port_available busy_world (argo_ui_port ex_self)
   \<and> chosen_port ex_self ex_env busy_world = 50123
   \<and> map_sum id daemons (start_ui_daemon ex_self ex_env busy_world)
       = Inr [(4242, [''kubectl'', ''--context'', ''minikube'', ''--namespace'', ''argo'',
                  ''port-forward'', ''svc/argo-server'', ''50123:2746''])]
   \<and> \<not> port_available crowded_world (argo_ui_port ex_self)
   \<and> start_ui_daemon ex_self ex_env crowded_world = Inr
        (crowded_world\<lparr>logged :=
          [Warning (''Unable to port-forward Argo UI to local port %d '' @
                    ''because the port is occupied. In order to access the Argo '' @
                    ''UI at http://localhost:<PORT>/, please run '' @ [CHR 0x27] @ ''%s'' @
                    [CHR 0x27] @ '' in a '' @
                    ''separate command line shell (replace <PORT> with a free port '' @
                    ''of your choice).'')
             [Num 50123,
              Str ''kubectl --context minikube --namespace argo port-forward svc/argo-server <PORT>:2746'']]\<rparr>)"
proof -
  have a: "\<not> port_available busy_world (argo_ui_port ex_self)"
    "\<not> port_available crowded_world (argo_ui_port ex_self)"
    by (simp_all add: port_available_def busy_world_def crowded_world_def ex_self_def)
  have p: "argo_ui_port ex_self = 2746" "find_available_port ex_env = 50123"
    "platform ex_env \<noteq> ''win32''" "new_pid ex_env = 4242"
    by (simp_all add: ex_self_def ex_env_def)
  have b: "port_available busy_world 50123" "\<not> port_available crowded_world 50123"
    by (simp_all add: port_available_def busy_world_def crowded_world_def)
  have s: "str_nat 50123 = ''50123''" by (simp add: str_nat.simps)
  have k: "kubernetes_context ex_self = ''minikube''" "kubernetes_namespace ex_self = ''argo''"
    by (simp_all add: ex_self_def)
  have l: "logged crowded_world = []" "daemons busy_world = []"
    by (simp_all add: crowded_world_def busy_world_def ex_world_def)
  from start_ui_daemon_port_occupied [OF a(1), of ex_env]
    start_ui_daemon_port_occupied [OF a(2), of ex_env] a p b s k l
  show ?thesis by simp
qed

end
